theory Spec2Isabelle
  imports Complex_Main "HOL-Library.Log_Nat"
begin

section \<open>Data model\<close>

text \<open>
  Identifiers are strings (UUIDs in the database), a \<open>Date\<close> is an integer count
  of milliseconds. A decimal column of the database holds an exact decimal fraction. A
  JavaScript \<open>number\<close> is a double: it is modelled by the rational that the double
  denotes, and the arithmetic on numbers rounds as the doubles do (see the section on
  JavaScript numbers). Timestamps that the database fills in by itself
  (\<open>createdAt\<close>, \<open>updatedAt\<close>) are not part of the model.
\<close>

type_synonym ident = string
type_synonym money = rat
type_synonym date = int

datatype OrderStatus =
  PENDING | CONFIRMED | PROCESSING | SHIPPED | DELIVERED | CANCELLED | REFUNDED

datatype PaymentStatus =
  PAY_PENDING | PAY_SUCCESS | PAY_FAILED | PAY_REFUNDED | PAY_PARTIALLY_REFUNDED

datatype CouponType = PERCENTAGE | FIXED_AMOUNT | FREE_SHIPPING

datatype coupon_message =
  INVALID_COUPON | NOT_ACTIVE | EXPIRED | COUPON_MAX_USES_REACHED

text \<open>
  The business exceptions of \<open>common/filters/exceptions.ts\<close> that the modelled
  services throw, and three errors of the database client: an update of a row that does
  not exist, an insert under a primary key already taken, and a required relation that
  an \<open>include\<close> cannot resolve.
\<close>

datatype error =
    EmptyCartException
  | NotFoundException string
  | InsufficientStockException int
  | OrderNotFoundException
  | OrderCancelNotAllowedException
  | PaymentFailedException
  | InvalidCouponException coupon_message
  | CouponMinNotMetException money
  | RecordNotFound
  | UniqueConstraintViolation
  | InconsistentQueryResult

text \<open>
  A variant row, with the two product columns that the services select joined in. The
  table of variants is keyed by the variant's id, so \<open>item.variant.id\<close> of a joined
  cart item is the item's own \<open>variantId\<close>.
\<close>

record ProductVariant =
  stockQuantity :: int
  priceModifier :: money
  color :: string
  variant_size :: string
  product_name :: string
  product_basePrice :: money

record CartItem =
  item_variantId :: ident
  item_quantity :: int

text \<open>A cart owns its items; the table of carts is keyed by the owner.\<close>

record Cart =
  cart_items :: "CartItem list"
  cart_couponId :: "ident option"

record Coupon =
  coupon_id :: ident
  code :: string
  coupon_type :: CouponType
  coupon_value :: money
  isActive :: bool
  startsAt :: date
  expiresAt :: date
  maxUses :: "int option"
  usedCount :: int
  minOrderAmount :: "money option"

record AddressSnapshot =
  firstName :: string
  lastName :: string
  phone :: string
  street :: string
  city :: string
  state :: string
  postalCode :: string
  country :: string

record Address = AddressSnapshot +
  address_userId :: ident

record CreateOrderDto =
  addressId :: ident
  dto_notes :: "string option"

record OrderItem =
  variantId :: ident
  quantity :: int
  unitPrice :: money
  totalPrice :: money
  productName :: string
  variantColor :: string
  variantSize :: string

record Order =
  order_id :: ident
  orderNumber :: string
  order_userId :: ident
  order_status :: OrderStatus
  order_subtotal :: money
  order_discount :: money
  order_shippingCost :: money
  order_vat :: money
  order_total :: money
  shippingAddress :: AddressSnapshot
  order_notes :: "string option"
  order_couponId :: "ident option"
  order_items :: "OrderItem list"

record OPayWebhookDto =
  dto_orderId :: string
  dto_reference :: string
  dto_status :: PaymentStatus
  dto_amount :: money
  dto_currency :: string
  dto_signature :: "string option"

record Payment =
  payment_id :: ident
  payment_orderId :: ident
  reference :: string
  payment_amount :: money
  payment_status :: PaymentStatus
  providerRef :: "string option"
  paidAt :: "date option"
  metadata :: "OPayWebhookDto option"

text \<open>
  The relational store. Tables read only through their primary key are maps from the
  key; the coupons and the payments, which are also looked up through a second unique
  column (\<open>code\<close>, \<open>reference\<close>), are lists of rows.
\<close>

record db =
  variants :: "ident \<rightharpoonup> ProductVariant"
  carts :: "ident \<rightharpoonup> Cart"
  coupons :: "Coupon list"
  addresses :: "ident \<rightharpoonup> Address"
  orders :: "ident \<rightharpoonup> Order"
  payments :: "Payment list"

section \<open>Database client\<close>

text \<open>
  \<open>update\<close> on a table throws when no row matches the unique \<open>where\<close>;
  \<open>$transaction\<close> runs its callback and keeps the callback's writes only when the
  callback returns: when it throws, the store is the one before the call.
\<close>

definition update_row ::
  "('r \<Rightarrow> bool) \<Rightarrow> ('r \<Rightarrow> 'r) \<Rightarrow> 'r list \<Rightarrow> error + 'r list \<times> 'r" where
  "update_row P f rows =
     (case find P rows of
        None \<Rightarrow> Inl RecordNotFound
      | Some r \<Rightarrow> Inr (map (\<lambda>x. if P x then f x else x) rows, f r))"

definition variant_update ::
  "ident \<Rightarrow> (ProductVariant \<Rightarrow> ProductVariant) \<Rightarrow> db \<Rightarrow> error + db" where
  "variant_update vid f d =
     (case variants d vid of
        None \<Rightarrow> Inl RecordNotFound
      | Some v \<Rightarrow> Inr (d\<lparr>variants := (variants d)(vid \<mapsto> f v)\<rparr>))"

definition order_update ::
  "ident \<Rightarrow> (Order \<Rightarrow> Order) \<Rightarrow> db \<Rightarrow> error + db \<times> Order" where
  "order_update oid f d =
     (case orders d oid of
        None \<Rightarrow> Inl RecordNotFound
      | Some ord \<Rightarrow> Inr (d\<lparr>orders := (orders d)(oid \<mapsto> f ord)\<rparr>, f ord))"

definition order_create :: "Order \<Rightarrow> db \<Rightarrow> error + db" where
  "order_create ord d =
     (case orders d (order_id ord) of
        Some _ \<Rightarrow> Inl UniqueConstraintViolation
      | None \<Rightarrow> Inr (d\<lparr>orders := (orders d)(order_id ord \<mapsto> ord)\<rparr>))"

definition coupon_update ::
  "ident \<Rightarrow> (Coupon \<Rightarrow> Coupon) \<Rightarrow> db \<Rightarrow> error + db" where
  "coupon_update cid f d =
     (case update_row (\<lambda>c. coupon_id c = cid) f (coupons d) of
        Inl e \<Rightarrow> Inl e
      | Inr (cs, c) \<Rightarrow> Inr (d\<lparr>coupons := cs\<rparr>))"

definition payment_update ::
  "ident \<Rightarrow> (Payment \<Rightarrow> Payment) \<Rightarrow> db \<Rightarrow> error + db \<times> Payment" where
  "payment_update pid f d =
     (case update_row (\<lambda>p. payment_id p = pid) f (payments d) of
        Inl e \<Rightarrow> Inl e
      | Inr (ps, p) \<Rightarrow> Inr (d\<lparr>payments := ps\<rparr>, p))"

definition cart_update ::
  "ident \<Rightarrow> (Cart \<Rightarrow> Cart) \<Rightarrow> db \<Rightarrow> error + db" where
  "cart_update uid f d =
     (case carts d uid of
        None \<Rightarrow> Inl RecordNotFound
      | Some c \<Rightarrow> Inr (d\<lparr>carts := (carts d)(uid \<mapsto> f c)\<rparr>))"

definition transaction :: "(db \<Rightarrow> error + db \<times> 'a) \<Rightarrow> db \<Rightarrow> db \<times> (error + 'a)" where
  "transaction body d =
     (case body d of
        Inl e \<Rightarrow> (d, Inl e)
      | Inr (d', r) \<Rightarrow> (d', Inr r))"

section \<open>JavaScript numbers\<close>

text \<open>
  A finite double is a rational \<open>m * 2 ^ e\<close> with an integer \<open>m\<close> of at most 53
  bits and \<open>e \<ge> - 1074\<close>. Every arithmetic operation of JavaScript computes the
  exact result and rounds it to the nearest double, a tie going to the even mantissa.
  \<open>expo x\<close> is the binary exponent of a nonzero \<open>x\<close>, the integer \<open>e\<close> with
  \<open>2 ^ e \<le> \<bar>x\<bar> < 2 ^ (e + 1)\<close>; the doubles around \<open>x\<close> are the multiples of
  \<open>2 ^ (e - 52)\<close>, and of \<open>2 ^ (- 1074)\<close> in the subnormal range. The results
  \<open>Infinity\<close> and \<open>NaN\<close> are not modelled: the model is the program on numbers
  whose magnitude stays below the largest double, as amounts of money do.
\<close>

definition rne :: "rat \<Rightarrow> int" where
  "rne y = (let f = \<lfloor>y\<rfloor>; r = y - of_int f
            in if r < 1 / 2 then f
               else if 1 / 2 < r then f + 1
               else if even f then f else f + 1)"

definition expo :: "rat \<Rightarrow> int" where
  "expo x = (case quotient_of \<bar>x\<bar> of
               (p, q) \<Rightarrow>
                 (let b = bitlen p - bitlen q
                  in if 2 powi b \<le> \<bar>x\<bar> then b else b - 1))"

definition double :: "rat \<Rightarrow> rat" where
  "double x = (if x = 0 then 0
               else (let e = max (expo x) (- 1022); u = 2 powi (e - 52)
                     in of_int (rne (x / u)) * u))"

text \<open>
  \<open>Number(v)\<close> of a decimal value, and a decimal literal of the source, is the double
  nearest to the decimal. The operators \<open>+\<close>, \<open>-\<close>, \<open>*\<close> and \<open>/\<close> on
  numbers; the comparisons and \<open>Math.max\<close> are exact.
\<close>

definition Number :: "rat \<Rightarrow> rat" where
  "Number v = double v"

definition js_add :: "rat \<Rightarrow> rat \<Rightarrow> rat" where
  "js_add a b = double (a + b)"

definition js_sub :: "rat \<Rightarrow> rat \<Rightarrow> rat" where
  "js_sub a b = double (a - b)"

definition js_mul :: "rat \<Rightarrow> rat \<Rightarrow> rat" where
  "js_mul a b = double (a * b)"

definition js_div :: "rat \<Rightarrow> rat \<Rightarrow> rat" where
  "js_div a b = double (a / b)"

text \<open>\<open>Math.round\<close>: the nearest integer, a tie going up.\<close>

definition Math_round :: "rat \<Rightarrow> int" where
  "Math_round x = \<lfloor>x + 1 / 2\<rfloor>"

section \<open>Pricing calculator (\<open>common/helpers\<close>, price helper)\<close>

definition VAT_RATE :: rat where
  "VAT_RATE = double 0.075"

definition roundPrice :: "rat \<Rightarrow> rat" where
  "roundPrice amount = js_div (of_int (Math_round (js_mul amount 100))) 100"

definition calculateVAT :: "rat \<Rightarrow> rat" where
  "calculateVAT amount =
     js_div (of_int (Math_round (js_mul (js_mul amount VAT_RATE) 100))) 100"

record OrderTotal =
  ot_vat :: money
  ot_total :: money
  ot_discountedSubtotal :: money

definition calculateOrderTotal :: "rat \<Rightarrow> rat \<Rightarrow> rat \<Rightarrow> OrderTotal" where
  "calculateOrderTotal subtotal shippingCost discount =
     (let discountedSubtotal = max (js_sub subtotal discount) 0;
          vat = calculateVAT discountedSubtotal;
          total = js_add (js_add discountedSubtotal vat) shippingCost
      in \<lparr> ot_vat = js_div (of_int (Math_round (js_mul vat 100))) 100,
           ot_total = js_div (of_int (Math_round (js_mul total 100))) 100,
           ot_discountedSubtotal =
             js_div (of_int (Math_round (js_mul discountedSubtotal 100))) 100 \<rparr>)"

section \<open>Payment reconciliation (\<open>PaymentsService.handleWebhook\<close>)\<close>

text \<open>
  The \<open>data\<close> of the payment update: the four columns that a callback writes.
  \<open>now\<close> is the value of \<open>new Date()\<close> during the call.
\<close>

definition handleWebhook_data :: "date \<Rightarrow> OPayWebhookDto \<Rightarrow> Payment \<Rightarrow> Payment" where
  "handleWebhook_data now dto p =
     p\<lparr> payment_status := dto_status dto,
        providerRef := Some (dto_reference dto),
        paidAt := (if dto_status dto = PAY_SUCCESS then Some now else None),
        metadata := Some dto \<rparr>"

text \<open>
  The body of the transaction: the payment row is rewritten from the callback, and the
  order is confirmed when the callback reports success. The result is the updated
  payment row.
\<close>

definition handleWebhook_tx ::
  "date \<Rightarrow> OPayWebhookDto \<Rightarrow> Payment \<Rightarrow> db \<Rightarrow> error + db \<times> Payment" where
  "handleWebhook_tx now dto payment d =
     (case payment_update (payment_id payment) (handleWebhook_data now dto) d of
        Inl e \<Rightarrow> Inl e
      | Inr (d1, updated) \<Rightarrow>
          if dto_status dto = PAY_SUCCESS then
            (case order_update (payment_orderId payment)
                    (\<lambda>ord. ord\<lparr>order_status := CONFIRMED\<rparr>) d1 of
               Inl e \<Rightarrow> Inl e
             | Inr (d2, ord) \<Rightarrow> Inr (d2, updated))
          else Inr (d1, updated))"

definition handleWebhook ::
  "date \<Rightarrow> OPayWebhookDto \<Rightarrow> db \<Rightarrow> db \<times> (error + Payment)" where
  "handleWebhook now dto d =
     (case find (\<lambda>p. reference p = dto_reference dto) (payments d) of
        None \<Rightarrow> (d, Inl PaymentFailedException)
      | Some payment \<Rightarrow>
          if Number (payment_amount payment) \<noteq> dto_amount dto
          then (d, Inl PaymentFailedException)
          else transaction (handleWebhook_tx now dto payment) d)"

section \<open>Cart (\<open>CartService\<close>)\<close>

text \<open>
  The \<open>include\<close> of a cart query: every item with its variant (a required relation),
  and the attached coupon (an optional one).
\<close>

fun include_variant ::
  "db \<Rightarrow> CartItem list \<Rightarrow> error + (CartItem \<times> ProductVariant) list" where
  "include_variant d [] = Inr []"
| "include_variant d (item # rest) =
     (case variants d (item_variantId item) of
        None \<Rightarrow> Inl InconsistentQueryResult
      | Some variant \<Rightarrow>
          (case include_variant d rest of
             Inl e \<Rightarrow> Inl e
           | Inr joined \<Rightarrow> Inr ((item, variant) # joined)))"

definition include_coupon :: "db \<Rightarrow> Cart \<Rightarrow> Coupon option" where
  "include_coupon d cart =
     (case cart_couponId cart of
        None \<Rightarrow> None
      | Some cid \<Rightarrow> find (\<lambda>c. coupon_id c = cid) (coupons d))"






section \<open>Checkout and cancellation (\<open>OrdersService\<close>)\<close>

definition address_findFirst :: "db \<Rightarrow> ident \<Rightarrow> ident \<Rightarrow> Address option" where
  "address_findFirst d aid userId =
     (case addresses d aid of
        None \<Rightarrow> None
      | Some a \<Rightarrow> if address_userId a = userId then Some a else None)"

definition order_findFirst :: "db \<Rightarrow> ident \<Rightarrow> ident \<Rightarrow> Order option" where
  "order_findFirst d oid userId =
     (case orders d oid of
        None \<Rightarrow> None
      | Some ord \<Rightarrow> if order_userId ord = userId then Some ord else None)"

text \<open>
  The loop that verifies the stock and builds the order items, with its two
  accumulators.
\<close>

fun checkout_items ::
  "(CartItem \<times> ProductVariant) list \<Rightarrow> money \<Rightarrow> OrderItem list
     \<Rightarrow> error + money \<times> OrderItem list" where
  "checkout_items [] subtotal orderItems = Inr (subtotal, orderItems)"
| "checkout_items ((item, variant) # rest) subtotal orderItems =
     (if stockQuantity variant < item_quantity item
      then Inl (InsufficientStockException (stockQuantity variant))
      else
        (let unitPrice' = js_add (Number (product_basePrice variant))
                                 (Number (priceModifier variant));
             totalPrice' = js_mul unitPrice' (of_int (item_quantity item))
         in checkout_items rest (js_add subtotal totalPrice')
              (orderItems @
                 [\<lparr> variantId = item_variantId item,
                    quantity = item_quantity item,
                    unitPrice = unitPrice',
                    totalPrice = totalPrice',
                    productName = product_name variant,
                    variantColor = color variant,
                    variantSize = variant_size variant \<rparr>])))"

text \<open>
  What \<open>checkout\<close> has computed when it opens its transaction: everything before the
  call of \<open>$transaction\<close> only reads the store.
\<close>

record CheckoutPlan =
  plan_cart :: Cart
  plan_address :: Address
  plan_orderItems :: "OrderItem list"
  plan_discount :: money
  plan_shippingCost :: money
  plan_totals :: OrderTotal

definition checkout_read :: "ident \<Rightarrow> CreateOrderDto \<Rightarrow> db \<Rightarrow> error + CheckoutPlan" where
  "checkout_read userId dto d =
     (case carts d userId of
        None \<Rightarrow> Inl EmptyCartException
      | Some cart \<Rightarrow>
          (case include_variant d (cart_items cart) of
             Inl e \<Rightarrow> Inl e
           | Inr items \<Rightarrow>
               if length items = 0 then Inl EmptyCartException
               else
                 (case address_findFirst d (addressId dto) userId of
                    None \<Rightarrow> Inl (NotFoundException ''Shipping address'')
                  | Some address \<Rightarrow>
                      (case checkout_items items 0 [] of
                         Inl e \<Rightarrow> Inl e
                       | Inr (subtotal, orderItems) \<Rightarrow>
                           (let discount =
                                  (case include_coupon d cart of
                                     None \<Rightarrow> 0
                                   | Some c \<Rightarrow>
                                       if coupon_type c = PERCENTAGE
                                         then js_div (js_mul subtotal
                                                        (Number (coupon_value c))) 100
                                       else if coupon_type c = FIXED_AMOUNT
                                         then Number (coupon_value c)
                                       else 0);
                                shippingCost = 2500
                            in Inr \<lparr> plan_cart = cart,
                                     plan_address = address,
                                     plan_orderItems = orderItems,
                                     plan_discount = discount,
                                     plan_shippingCost = shippingCost,
                                     plan_totals =
                                       calculateOrderTotal subtotal shippingCost discount \<rparr>)))))"

fun decrement_stock :: "OrderItem list \<Rightarrow> db \<Rightarrow> error + db" where
  "decrement_stock [] d = Inr d"
| "decrement_stock (item # rest) d =
     (case variant_update (variantId item)
             (\<lambda>v. v\<lparr>stockQuantity := stockQuantity v - quantity item\<rparr>) d of
        Inl e \<Rightarrow> Inl e
      | Inr d' \<Rightarrow> decrement_stock rest d')"

text \<open>\<open>cartItem.deleteMany\<close> deletes the rows that match, and none is no error.\<close>

definition cartItem_deleteMany :: "ident \<Rightarrow> db \<Rightarrow> db" where
  "cartItem_deleteMany userId d =
     (case carts d userId of
        None \<Rightarrow> d
      | Some c \<Rightarrow> d\<lparr>carts := (carts d)(userId \<mapsto> c\<lparr>cart_items := []\<rparr>)\<rparr>)"

text \<open>
  The callback of the checkout transaction. \<open>newId\<close> is the primary key that the
  database gives the order and \<open>orderNo\<close> the result of
  \<open>generateOrderNumber()\<close>. The guard \<open>if (cart.couponId)\<close> is false for null
  and for the empty string.
\<close>

definition checkout_tx ::
  "ident \<Rightarrow> string \<Rightarrow> ident \<Rightarrow> CreateOrderDto \<Rightarrow> CheckoutPlan \<Rightarrow> db
     \<Rightarrow> error + db \<times> Order" where
  "checkout_tx newId orderNo userId dto plan d =
     (let newOrder =
            \<lparr> order_id = newId,
              orderNumber = orderNo,
              order_userId = userId,
              order_status = PENDING,
              order_subtotal = ot_discountedSubtotal (plan_totals plan),
              order_discount = plan_discount plan,
              order_shippingCost = plan_shippingCost plan,
              order_vat = ot_vat (plan_totals plan),
              order_total = ot_total (plan_totals plan),
              shippingAddress = AddressSnapshot.truncate (plan_address plan),
              order_notes = dto_notes dto,
              order_couponId = cart_couponId (plan_cart plan),
              order_items = plan_orderItems plan \<rparr>
      in case order_create newOrder d of
           Inl e \<Rightarrow> Inl e
         | Inr d1 \<Rightarrow>
             (case decrement_stock (plan_orderItems plan) d1 of
                Inl e \<Rightarrow> Inl e
              | Inr d2 \<Rightarrow>
                  (case (case cart_couponId (plan_cart plan) of
                           None \<Rightarrow> Inr d2
                         | Some cid \<Rightarrow>
                             if cid = [] then Inr d2
                             else coupon_update cid
                                    (\<lambda>c. c\<lparr>usedCount := usedCount c + 1\<rparr>) d2) of
                     Inl e \<Rightarrow> Inl e
                   | Inr d3 \<Rightarrow>
                       (case cart_update userId (\<lambda>c. c\<lparr>cart_couponId := None\<rparr>)
                               (cartItem_deleteMany userId d3) of
                          Inl e \<Rightarrow> Inl e
                        | Inr d4 \<Rightarrow> Inr (d4, newOrder)))))"

definition checkout ::
  "ident \<Rightarrow> string \<Rightarrow> ident \<Rightarrow> CreateOrderDto \<Rightarrow> db \<Rightarrow> db \<times> (error + Order)" where
  "checkout newId orderNo userId dto d =
     (case checkout_read userId dto d of
        Inl e \<Rightarrow> (d, Inl e)
      | Inr plan \<Rightarrow> transaction (checkout_tx newId orderNo userId dto plan) d)"

fun restore_stock :: "OrderItem list \<Rightarrow> db \<Rightarrow> error + db" where
  "restore_stock [] d = Inr d"
| "restore_stock (item # rest) d =
     (case variant_update (variantId item)
             (\<lambda>v. v\<lparr>stockQuantity := stockQuantity v + quantity item\<rparr>) d of
        Inl e \<Rightarrow> Inl e
      | Inr d' \<Rightarrow> restore_stock rest d')"

definition cancelOrder_tx :: "ident \<Rightarrow> Order \<Rightarrow> db \<Rightarrow> error + db \<times> Order" where
  "cancelOrder_tx orderId ord d =
     (case restore_stock (order_items ord) d of
        Inl e \<Rightarrow> Inl e
      | Inr d1 \<Rightarrow> order_update orderId (\<lambda>x. x\<lparr>order_status := CANCELLED\<rparr>) d1)"

definition cancelOrder :: "ident \<Rightarrow> ident \<Rightarrow> db \<Rightarrow> db \<times> (error + Order)" where
  "cancelOrder userId orderId d =
     (case order_findFirst d orderId userId of
        None \<Rightarrow> (d, Inl OrderNotFoundException)
      | Some ord \<Rightarrow>
          if order_status ord \<notin> set [PENDING, CONFIRMED]
          then (d, Inl OrderCancelNotAllowedException)
          else transaction (cancelOrder_tx orderId ord) d)"

section \<open>Notions used in the statements\<close>


text \<open>The payments table after a callback has rewritten the rows with the id of \<open>p\<close>.\<close>

definition webhook_rows ::
  "date \<Rightarrow> OPayWebhookDto \<Rightarrow> Payment \<Rightarrow> Payment list \<Rightarrow> Payment list" where
  "webhook_rows now dto p rows =
     map (\<lambda>x. if payment_id x = payment_id p then handleWebhook_data now dto x else x) rows"

text \<open>
  The units of a variant in a list of order items, and the subtotal of the joined cart
  items as the services add it up, line by line, in numbers.
\<close>

definition units :: "OrderItem list \<Rightarrow> ident \<Rightarrow> int" where
  "units ois vid = sum_list (map quantity (filter (\<lambda>i. variantId i = vid) ois))"

definition lines_total :: "(CartItem \<times> ProductVariant) list \<Rightarrow> rat" where
  "lines_total joined =
     foldl (\<lambda>sum (item, variant).
              js_add sum
                (js_mul (js_add (Number (product_basePrice variant))
                                (Number (priceModifier variant)))
                        (of_int (item_quantity item)))) 0 joined"

text \<open>
  A cart line that asks for more units than its variant has in stock; the first such
  line of a cart, in cart order, is \<open>find (over_stock d) (cart_items cart)\<close>.
\<close>

definition over_stock :: "db \<Rightarrow> CartItem \<Rightarrow> bool" where
  "over_stock d it =
     (case variants d (item_variantId it) of
        None \<Rightarrow> False
      | Some v \<Rightarrow> stockQuantity v < item_quantity it)"

text \<open>The order item that checkout builds from a joined cart item.\<close>

definition order_line :: "CartItem \<times> ProductVariant \<Rightarrow> OrderItem" where
  "order_line jv =
     (case jv of (item, variant) \<Rightarrow>
        \<lparr> variantId = item_variantId item,
          quantity = item_quantity item,
          unitPrice = js_add (Number (product_basePrice variant))
                             (Number (priceModifier variant)),
          totalPrice = js_mul (js_add (Number (product_basePrice variant))
                                      (Number (priceModifier variant)))
                              (of_int (item_quantity item)),
          productName = product_name variant,
          variantColor = color variant,
          variantSize = variant_size variant \<rparr>)"

text \<open>The discount that checkout and the cart view derive from the attached coupon.\<close>

definition coupon_discount :: "money \<Rightarrow> Coupon option \<Rightarrow> money" where
  "coupon_discount sub coupon =
     (case coupon of
        None \<Rightarrow> 0
      | Some c \<Rightarrow>
          (case coupon_type c of
             PERCENTAGE \<Rightarrow> js_div (js_mul sub (Number (coupon_value c))) 100
           | FIXED_AMOUNT \<Rightarrow> Number (coupon_value c)
           | FREE_SHIPPING \<Rightarrow> 0))"

text \<open>
  One schedule of two checkout requests that are served at the same time: each request
  runs its reads (everything up to the call of \<open>$transaction\<close>) before either
  transaction starts, and the two transactions then run one after the other.
\<close>

definition checkout_overlapped ::
  "ident \<times> string \<times> ident \<times> CreateOrderDto \<Rightarrow> ident \<times> string \<times> ident \<times> CreateOrderDto
     \<Rightarrow> db \<Rightarrow> db \<times> (error + Order) \<times> (error + Order)" where
  "checkout_overlapped r1 r2 d =
     (case (r1, r2) of
        ((newId1, orderNo1, userId1, dto1), (newId2, orderNo2, userId2, dto2)) \<Rightarrow>
          (let read1 = checkout_read userId1 dto1 d;
               read2 = checkout_read userId2 dto2 d;
               (d1, res1) = (case read1 of
                               Inl e \<Rightarrow> (d, Inl e)
                             | Inr plan \<Rightarrow>
                                 transaction (checkout_tx newId1 orderNo1 userId1 dto1 plan) d);
               (d2, res2) = (case read2 of
                               Inl e \<Rightarrow> (d1, Inl e)
                             | Inr plan \<Rightarrow>
                                 transaction (checkout_tx newId2 orderNo2 userId2 dto2 plan) d1)
           in (d2, res1, res2)))"

section \<open>A sample store\<close>

text \<open>
  Three variants, an order of two of them with its pending payment, four carts and two
  coupons that are valid from time 100 to time 200.
\<close>

definition variantA :: ProductVariant where
  "variantA = \<lparr> stockQuantity = 5, priceModifier = 0, color = ''red'', variant_size = ''M'',
                 product_name = ''Shirt'', product_basePrice = 4000 \<rparr>"

definition variantB :: ProductVariant where
  "variantB = \<lparr> stockQuantity = 3, priceModifier = 500, color = ''blue'', variant_size = ''L'',
                 product_name = ''Cap'', product_basePrice = 1500 \<rparr>"

definition variantC :: ProductVariant where
  "variantC = \<lparr> stockQuantity = 1, priceModifier = 0, color = ''green'', variant_size = ''S'',
                 product_name = ''Scarf'', product_basePrice = 4000 \<rparr>"

definition home :: AddressSnapshot where
  "home = \<lparr> firstName = ''Ada'', lastName = ''Obi'', phone = ''0800'', street = ''1 Main'',
             city = ''Lagos'', state = ''LA'', postalCode = ''100001'', country = ''NG'' \<rparr>"

definition coupon1 :: Coupon where
  "coupon1 = \<lparr> coupon_id = ''c1'', code = ''SAVE1000'', coupon_type = FIXED_AMOUNT,
                coupon_value = 1000, isActive = True, startsAt = 100, expiresAt = 200,
                maxUses = Some 10, usedCount = 0, minOrderAmount = Some 5000 \<rparr>"

definition coupon0 :: Coupon where
  "coupon0 = \<lparr> coupon_id = ''c0'', code = ''ZERO'', coupon_type = PERCENTAGE,
                coupon_value = 10, isActive = True, startsAt = 100, expiresAt = 200,
                maxUses = None, usedCount = 0, minOrderAmount = None \<rparr>"

definition order1 :: Order where
  "order1 = \<lparr> order_id = ''o1'', orderNumber = ''VT-1'', order_userId = ''u1'',
               order_status = PENDING, order_subtotal = 9000, order_discount = 1000,
               order_shippingCost = 2500, order_vat = 675, order_total = 12175,
               shippingAddress = home, order_notes = None, order_couponId = Some ''c1'',
               order_items =
                 [\<lparr> variantId = ''vA'', quantity = 2, unitPrice = 4000, totalPrice = 8000,
                     productName = ''Shirt'', variantColor = ''red'', variantSize = ''M'' \<rparr>,
                  \<lparr> variantId = ''vB'', quantity = 1, unitPrice = 2000, totalPrice = 2000,
                     productName = ''Cap'', variantColor = ''blue'', variantSize = ''L'' \<rparr>] \<rparr>"

definition payment1 :: Payment where
  "payment1 = \<lparr> payment_id = ''p1'', payment_orderId = ''o1'', reference = ''PAY-1'',
                 payment_amount = 12175, payment_status = PAY_PENDING, providerRef = None,
                 paidAt = None, metadata = None \<rparr>"

definition store :: db where
  "store =
     \<lparr> variants = [''vA'' \<mapsto> variantA, ''vB'' \<mapsto> variantB, ''vC'' \<mapsto> variantC],
       carts =
         [''u1'' \<mapsto> \<lparr> cart_items = [\<lparr>item_variantId = ''vA'', item_quantity = 2\<rparr>,
                                     \<lparr>item_variantId = ''vB'', item_quantity = 1\<rparr>],
                       cart_couponId = Some ''c1'' \<rparr>,
          ''u2'' \<mapsto> \<lparr> cart_items = [\<lparr>item_variantId = ''vC'', item_quantity = 1\<rparr>],
                       cart_couponId = None \<rparr>,
          ''u3'' \<mapsto> \<lparr> cart_items = [\<lparr>item_variantId = ''vC'', item_quantity = 1\<rparr>],
                       cart_couponId = None \<rparr>,
          ''u4'' \<mapsto> \<lparr> cart_items = [\<lparr>item_variantId = ''vA'', item_quantity = 1\<rparr>,
                                     \<lparr>item_variantId = ''vB'', item_quantity = 4\<rparr>],
                       cart_couponId = None \<rparr>],
       coupons = [coupon1, coupon0],
       addresses =
         [''a1'' \<mapsto> AddressSnapshot.extend home \<lparr>address_userId = ''u1''\<rparr>,
          ''a2'' \<mapsto> AddressSnapshot.extend home \<lparr>address_userId = ''u2''\<rparr>,
          ''a3'' \<mapsto> AddressSnapshot.extend home \<lparr>address_userId = ''u3''\<rparr>,
          ''a4'' \<mapsto> AddressSnapshot.extend home \<lparr>address_userId = ''u4''\<rparr>],
       orders = [''o1'' \<mapsto> order1],
       payments = [payment1] \<rparr>"

definition ship_to :: "ident \<Rightarrow> CreateOrderDto" where
  "ship_to aid = \<lparr> addressId = aid, dto_notes = None \<rparr>"

text \<open>
  What the reads of a checkout by user u2 produce on the sample store, and the sample
  store after the last unit of variant C has been sold to someone else.
\<close>

definition plan_u2 :: CheckoutPlan where
  "plan_u2 =
     \<lparr> plan_cart = \<lparr> cart_items = [\<lparr>item_variantId = ''vC'', item_quantity = 1\<rparr>],
                       cart_couponId = None \<rparr>,
       plan_address = AddressSnapshot.extend home \<lparr>address_userId = ''u2''\<rparr>,
       plan_orderItems =
         [\<lparr> variantId = ''vC'', quantity = 1, unitPrice = 4000, totalPrice = 4000,
             productName = ''Scarf'', variantColor = ''green'', variantSize = ''S'' \<rparr>],
       plan_discount = 0,
       plan_shippingCost = 2500,
       plan_totals = calculateOrderTotal 4000 2500 0 \<rparr>"

definition sold_out :: db where
  "sold_out = store\<lparr>variants := (variants store)(''vC'' \<mapsto> variantC\<lparr>stockQuantity := 0\<rparr>)\<rparr>"

text \<open>The sample store with variant A out of stock.\<close>

definition scarce :: db where
  "scarce = store\<lparr>variants := (variants store)(''vA'' \<mapsto> variantA\<lparr>stockQuantity := 0\<rparr>)\<rparr>"



definition callback :: "PaymentStatus \<Rightarrow> OPayWebhookDto" where
  "callback st = \<lparr> dto_orderId = ''o1'', dto_reference = ''PAY-1'', dto_status = st,
                    dto_amount = 12175, dto_currency = ''NGN'', dto_signature = None \<rparr>"

section \<open>Properties of the pricing calculator\<close>


lemma rne_of_int [simp]: "rne (of_int k) = k"
  by (simp add: rne_def)


lemma pow2_pos [simp]: "(0::rat) < 2 powi n"
  by (simp add: power_int_def)

lemma pow2_mono: "m \<le> n \<Longrightarrow> (2::rat) powi m \<le> 2 powi n"
  by (rule power_int_increasing) simp_all

text \<open>\<open>expo\<close> is the binary exponent.\<close>

lemma expo_bounds:
  assumes "x \<noteq> 0"
  shows "2 powi (expo x) \<le> \<bar>x\<bar>" and "\<bar>x\<bar> < 2 powi (expo x + 1)"
proof -
  obtain p q where pq: "quotient_of \<bar>x\<bar> = (p, q)" by (cases "quotient_of \<bar>x\<bar>")
  have q: "0 < q" using quotient_of_denom_pos[OF pq] .
  have x: "\<bar>x\<bar> = of_int p / of_int q" using quotient_of_div[OF pq] .
  have p: "0 < p"
  proof -
    have "0 < \<bar>x\<bar>" using assms by simp
    then have "0 < (of_int p / of_int q :: rat)" using x by simp
    with q show ?thesis by (simp add: zero_less_divide_iff)
  qed
  let ?b = "bitlen p - bitlen q"
  have bp: "1 \<le> bitlen p" "1 \<le> bitlen q"
    using p q bitlen_eq_zero_iff[of p] bitlen_eq_zero_iff[of q]
      bitlen_nonneg[of p] bitlen_nonneg[of q]
    by linarith+
  have P: "(2::rat) powi (bitlen p - 1) \<le> of_int p" "of_int p < (2::rat) powi (bitlen p)"
  proof -
    from bitlen_bounds[OF p] have "2 ^ nat (bitlen p - 1) \<le> p" "p < 2 ^ nat (bitlen p)"
      by auto
    then have "(of_int (2 ^ nat (bitlen p - 1)) :: rat) \<le> of_int p"
      "(of_int p :: rat) < of_int (2 ^ nat (bitlen p))"
      by (simp_all only: of_int_le_iff of_int_less_iff)
    then show "(2::rat) powi (bitlen p - 1) \<le> of_int p" "of_int p < (2::rat) powi (bitlen p)"
      using bp by (simp_all add: power_int_def)
  qed
  have Q: "(2::rat) powi (bitlen q - 1) \<le> of_int q" "of_int q < (2::rat) powi (bitlen q)"
  proof -
    from bitlen_bounds[OF q] have "2 ^ nat (bitlen q - 1) \<le> q" "q < 2 ^ nat (bitlen q)"
      by auto
    then have "(of_int (2 ^ nat (bitlen q - 1)) :: rat) \<le> of_int q"
      "(of_int q :: rat) < of_int (2 ^ nat (bitlen q))"
      by (simp_all only: of_int_le_iff of_int_less_iff)
    then show "(2::rat) powi (bitlen q - 1) \<le> of_int q" "of_int q < (2::rat) powi (bitlen q)"
      using bp by (simp_all add: power_int_def)
  qed
  have qpos: "(0::rat) < of_int q" using q by simp
  have lo: "(2::rat) powi (?b - 1) \<le> \<bar>x\<bar>"
  proof -
    have "(2::rat) powi (?b - 1) * of_int q \<le> 2 powi (?b - 1) * 2 powi (bitlen q)"
      using Q(2) by (intro mult_left_mono) simp_all
    also have "\<dots> = 2 powi (bitlen p - 1)"
      by (simp flip: power_int_add)
    also have "\<dots> \<le> of_int p" by (rule P(1))
    finally show ?thesis using qpos by (simp add: x pos_le_divide_eq)
  qed
  have hi: "\<bar>x\<bar> < (2::rat) powi (?b + 1)"
  proof -
    have "of_int p < (2::rat) powi (bitlen p)" by (rule P(2))
    also have "\<dots> = 2 powi (?b + 1) * 2 powi (bitlen q - 1)"
      by (simp flip: power_int_add)
    also have "\<dots> \<le> 2 powi (?b + 1) * of_int q"
      using Q(1) by (intro mult_left_mono) simp_all
    finally show ?thesis using qpos by (simp add: x pos_divide_less_eq)
  qed
  have e: "expo x = (if 2 powi ?b \<le> \<bar>x\<bar> then ?b else ?b - 1)"
    by (simp add: expo_def pq Let_def)
  show "2 powi (expo x) \<le> \<bar>x\<bar>" using lo by (simp add: e)
  show "\<bar>x\<bar> < 2 powi (expo x + 1)" using hi by (auto simp: e not_le)
qed

lemma expo_unique:
  assumes "2 powi e \<le> \<bar>x\<bar>" and "\<bar>x\<bar> < 2 powi (e + 1)"
  shows "expo x = e"
proof -
  have "(0::rat) < 2 powi e" by simp
  with assms(1) have "0 < \<bar>x\<bar>" by linarith
  then have nz: "x \<noteq> 0" by auto
  note b = expo_bounds[OF nz]
  have "\<not> expo x < e"
  proof
    assume "expo x < e"
    then have "(2::rat) powi (expo x + 1) \<le> 2 powi e" by (intro pow2_mono) simp
    with b(2) assms(1) show False by linarith
  qed
  moreover have "\<not> e < expo x"
  proof
    assume "e < expo x"
    then have "(2::rat) powi (e + 1) \<le> 2 powi (expo x)" by (intro pow2_mono) simp
    with b(1) assms(2) show False by linarith
  qed
  ultimately show ?thesis by linarith
qed

lemma double_zero [simp]: "double 0 = 0"
  by (simp add: double_def)



text \<open>An integer of fewer than 54 bits is a double.\<close>

lemma double_of_int:
  assumes "\<bar>k\<bar> < 2 ^ 53"
  shows "double (of_int k) = of_int k"
proof (cases "k = 0")
  case True
  then show ?thesis by simp
next
  case False
  define x :: rat where "x = of_int k"
  have nz: "x \<noteq> 0" using False by (simp add: x_def)
  define e where "e = expo x"
  note b = expo_bounds[OF nz, folded e_def]
  have ax: "\<bar>x\<bar> = of_int \<bar>k\<bar>" by (simp add: x_def)
  have lo: "0 \<le> e"
  proof (rule ccontr)
    assume "\<not> 0 \<le> e"
    then have "e + 1 \<le> 0" by simp
    then have "(2::rat) powi (e + 1) \<le> 2 powi 0" by (rule pow2_mono)
    with b(2) have "\<bar>x\<bar> < 1" by simp
    then have "\<bar>k\<bar> < 1" unfolding ax by (simp only: of_int_less_1_iff)
    with False show False by simp
  qed
  have hi: "e \<le> 52"
  proof (rule ccontr)
    assume "\<not> e \<le> 52"
    then have "53 \<le> e" by simp
    then have "(2::rat) powi 53 \<le> 2 powi e" by (rule pow2_mono)
    with b(1) have "(2::rat) ^ 53 \<le> \<bar>x\<bar>" by simp
    then have "(of_int (2 ^ 53) :: rat) \<le> of_int \<bar>k\<bar>" unfolding ax by simp
    then have "2 ^ 53 \<le> \<bar>k\<bar>" by (simp only: of_int_le_iff)
    with assms show False by simp
  qed
  have m: "max e (- 1022) = e" using lo by simp
  have inv: "(2::rat) powi (e - 52) * 2 powi (52 - e) = 1"
    by (simp flip: power_int_add)
  have nat: "(2::rat) powi (52 - e) = of_int (2 ^ nat (52 - e))"
    using hi by (simp add: power_int_def)
  have q: "x / 2 powi (e - 52) = of_int (k * 2 ^ nat (52 - e))"
  proof -
    have "x / 2 powi (e - 52) = x * 2 powi (52 - e)"
      using inv by (simp add: field_simps)
    then show ?thesis by (simp add: nat x_def)
  qed
  have "double x = of_int (rne (x / 2 powi (e - 52))) * 2 powi (e - 52)"
    using nz m by (simp add: double_def Let_def e_def)
  also have "\<dots> = of_int (k * 2 ^ nat (52 - e)) * 2 powi (e - 52)"
    unfolding q by (simp only: rne_of_int)
  also have "\<dots> = x * (2 powi (52 - e) * 2 powi (e - 52))"
    by (simp add: nat x_def)
  also have "\<dots> = x" using inv by (simp add: mult.commute)
  finally show ?thesis by (simp add: x_def)
qed





lemma Math_round_nearest:
  "of_int (Math_round y) - 1 / 2 \<le> y \<and> y < of_int (Math_round y) + 1 / 2"
  unfolding Math_round_def by linarith









lemma roundPrice_cents:
  "\<exists>n. roundPrice x = js_div (of_int n) 100
       \<and> of_int n - 1 / 2 \<le> js_mul x 100 \<and> js_mul x 100 < of_int n + 1 / 2"
  using Math_round_nearest[of "js_mul x 100"] by (auto simp: roundPrice_def)














lemma double_numeral:
  "(numeral w :: int) < 2 ^ 53 \<Longrightarrow> double (numeral w) = numeral w"
  using double_of_int[of "numeral w"] by simp

lemmas js_ops = Number_def js_add_def js_sub_def js_mul_def js_div_def




section \<open>Properties of the payment reconciliation\<close>

lemma find_map_preserve:
  "(\<And>x. P (g x) = P x) \<Longrightarrow> find P (map g xs) = map_option g (find P xs)"
  by (induction xs) simp_all

lemma find_Some_pred: "find P xs = Some x \<Longrightarrow> P x \<and> x \<in> set xs"
  by (induction xs) (auto split: if_splits)

lemma find_exists: "x \<in> set xs \<Longrightarrow> P x \<Longrightarrow> \<exists>y. find P xs = Some y"
  by (induction xs) auto

lemma transaction_Inl: "transaction body d = (d', Inl e) \<Longrightarrow> d' = d"
  by (auto simp: transaction_def split: sum.splits prod.splits)

lemma handleWebhook_data_keys [simp]:
  "payment_id (handleWebhook_data now dto p) = payment_id p"
  "payment_orderId (handleWebhook_data now dto p) = payment_orderId p"
  "reference (handleWebhook_data now dto p) = reference p"
  "payment_amount (handleWebhook_data now dto p) = payment_amount p"
  "payment_status (handleWebhook_data now dto p) = dto_status dto"
  "providerRef (handleWebhook_data now dto p) = Some (dto_reference dto)"
  "paidAt (handleWebhook_data now dto p) = (if dto_status dto = PAY_SUCCESS then Some now else None)"
  "metadata (handleWebhook_data now dto p) = Some dto"
  by (simp_all add: handleWebhook_data_def)

lemma handleWebhook_reject:
  "find (\<lambda>q. reference q = dto_reference dto) (payments d) = None
   \<or> (\<exists>p. find (\<lambda>q. reference q = dto_reference dto) (payments d) = Some p
          \<and> Number (payment_amount p) \<noteq> dto_amount dto)
   \<Longrightarrow> handleWebhook now dto d = (d, Inl PaymentFailedException)"
  by (auto simp: handleWebhook_def)

lemma handleWebhook_Inl_unchanged:
  "handleWebhook now dto d = (d', Inl e) \<Longrightarrow> d' = d"
  by (auto simp: handleWebhook_def split: option.splits if_splits dest: transaction_Inl)

lemma handleWebhook_accept:
  assumes f: "find (\<lambda>q. reference q = dto_reference dto) (payments d) = Some p"
    and a: "Number (payment_amount p) = dto_amount dto"
    and o: "dto_status dto = PAY_SUCCESS \<longrightarrow> orders d (payment_orderId p) \<noteq> None"
  shows "\<exists>u. handleWebhook now dto d =
          (d\<lparr> payments := webhook_rows now dto p (payments d),
              orders := (if dto_status dto = PAY_SUCCESS
                         then (orders d)(payment_orderId p :=
                                map_option (\<lambda>x. x\<lparr>order_status := CONFIRMED\<rparr>)
                                  (orders d (payment_orderId p)))
                         else orders d) \<rparr>, Inr u)"
proof -
  from find_Some_pred[OF f] have "p \<in> set (payments d)" by simp
  then obtain r where r: "find (\<lambda>q. payment_id q = payment_id p) (payments d) = Some r"
    using find_exists[of p "payments d" "\<lambda>q. payment_id q = payment_id p"] by auto
  show ?thesis
  proof (cases "dto_status dto = PAY_SUCCESS")
    case True
    with o obtain ord where ord: "orders d (payment_orderId p) = Some ord" by auto
    show ?thesis
      using f a r True ord
      by (simp add: handleWebhook_def transaction_def handleWebhook_tx_def payment_update_def
          update_row_def order_update_def webhook_rows_def)
  next
    case False
    show ?thesis
      using f a r False
      by (simp add: handleWebhook_def transaction_def handleWebhook_tx_def payment_update_def
          update_row_def order_update_def webhook_rows_def)
  qed
qed

lemma find_webhook_rows:
  assumes f: "find (\<lambda>q. reference q = r) rows = Some p"
  shows "find (\<lambda>q. reference q = r) (webhook_rows now dto p rows)
           = Some (handleWebhook_data now dto p)"
proof -
  have "find (\<lambda>q. reference q = r) (webhook_rows now dto p rows)
      = map_option (\<lambda>x. if payment_id x = payment_id p then handleWebhook_data now dto x else x)
          (find (\<lambda>q. reference q = r) rows)"
    unfolding webhook_rows_def by (rule find_map_preserve) simp
  then show ?thesis using f by simp
qed

lemma webhook_rows_twice:
  "webhook_rows t2 dto2 (handleWebhook_data t1 dto1 p) (webhook_rows t1 dto1 p rows)
     = webhook_rows t2 dto2 p rows"
  by (simp add: webhook_rows_def handleWebhook_data_def)

lemma store_payment_find:
  "find (\<lambda>q. reference q = dto_reference (callback st)) (payments store) = Some payment1"
  by (simp add: store_def callback_def payment1_def)

text \<open>
  Claim C7. A callback whose reference matches no payment, or whose amount differs from
  the amount of the payment it names (the stored decimal read as a number, as the
  handler compares them), is refused with \<open>PaymentFailedException\<close> and the store
  after the call is the store before it; more generally, whenever the handler fails, the
  store is unchanged.
\<close>

theorem handleWebhook_hard_failure:
  "(find (\<lambda>q. reference q = dto_reference dto) (payments d) = None
      \<or> (\<exists>p. find (\<lambda>q. reference q = dto_reference dto) (payments d) = Some p
             \<and> Number (payment_amount p) \<noteq> dto_amount dto)
      \<longrightarrow> handleWebhook now dto d = (d, Inl PaymentFailedException))
   \<and> (\<forall>d' e. handleWebhook now dto d = (d', Inl e) \<longrightarrow> d' = d)"
  using handleWebhook_reject[of dto d now] handleWebhook_Inl_unchanged[of now dto d]
  by blast

text \<open>An unknown reference and a wrong amount, each against the sample store.\<close>

theorem handleWebhook_hard_failure_witness:
  "handleWebhook 1000 ((callback PAY_SUCCESS)\<lparr>dto_reference := ''PAY-9''\<rparr>) store
     = (store, Inl PaymentFailedException)
   \<and> handleWebhook 1000 ((callback PAY_SUCCESS)\<lparr>dto_amount := 12000\<rparr>) store
     = (store, Inl PaymentFailedException)"
proof -
  have u: "find (\<lambda>q. reference q = dto_reference ((callback PAY_SUCCESS)\<lparr>dto_reference := ''PAY-9''\<rparr>))
             (payments store) = None"
    by (simp add: store_def callback_def payment1_def)
  have m: "\<exists>p. find (\<lambda>q. reference q = dto_reference ((callback PAY_SUCCESS)\<lparr>dto_amount := 12000\<rparr>))
             (payments store) = Some p
           \<and> Number (payment_amount p) \<noteq> dto_amount ((callback PAY_SUCCESS)\<lparr>dto_amount := 12000\<rparr>)"
    by (simp add: store_def callback_def payment1_def Number_def double_numeral)
  from handleWebhook_hard_failure[of "(callback PAY_SUCCESS)\<lparr>dto_reference := ''PAY-9''\<rparr>" store 1000]
       handleWebhook_hard_failure[of "(callback PAY_SUCCESS)\<lparr>dto_amount := 12000\<rparr>" store 1000]
       u m
  show ?thesis by blast
qed

lemma handleWebhook_state:
  assumes f: "find (\<lambda>q. reference q = dto_reference dto) (payments d) = Some p"
    and a: "Number (payment_amount p) = dto_amount dto"
    and o: "dto_status dto = PAY_SUCCESS \<longrightarrow> orders d (payment_orderId p) \<noteq> None"
  shows "fst (handleWebhook now dto d) =
          d\<lparr> payments := webhook_rows now dto p (payments d),
              orders := (if dto_status dto = PAY_SUCCESS
                         then (orders d)(payment_orderId p :=
                                map_option (\<lambda>x. x\<lparr>order_status := CONFIRMED\<rparr>)
                                  (orders d (payment_orderId p)))
                         else orders d) \<rparr>"
    and "\<exists>u. snd (handleWebhook now dto d) = Inr u"
  using handleWebhook_accept[OF f a o, of now] by auto

lemma handleWebhook_twice:
  assumes f: "find (\<lambda>q. reference q = dto_reference dto) (payments d) = Some p"
    and a: "Number (payment_amount p) = dto_amount dto"
    and o: "dto_status dto = PAY_SUCCESS \<longrightarrow> orders d (payment_orderId p) \<noteq> None"
    and r: "dto_reference dto2 = dto_reference dto" "dto_amount dto2 = dto_amount dto"
    and s: "dto_status dto2 = PAY_SUCCESS \<longrightarrow> dto_status dto = PAY_SUCCESS"
  shows "fst (handleWebhook t2 dto2 (fst (handleWebhook t1 dto d))) =
          d\<lparr> payments := webhook_rows t2 dto2 p (payments d),
              orders := (if dto_status dto = PAY_SUCCESS
                         then (orders d)(payment_orderId p :=
                                map_option (\<lambda>x. x\<lparr>order_status := CONFIRMED\<rparr>)
                                  (orders d (payment_orderId p)))
                         else orders d) \<rparr>"
    and "\<exists>u. snd (handleWebhook t2 dto2 (fst (handleWebhook t1 dto d))) = Inr u"
proof -
  let ?d1 = "fst (handleWebhook t1 dto d)"
  let ?p1 = "handleWebhook_data t1 dto p"
  note d1 = handleWebhook_state(1)[OF f a o, of t1]
  have f1: "find (\<lambda>q. reference q = dto_reference dto2) (payments ?d1) = Some ?p1"
    using find_webhook_rows[OF f, of t1 dto] by (simp add: d1 r)
  have a1: "Number (payment_amount ?p1) = dto_amount dto2" using a r by simp
  have o1: "dto_status dto2 = PAY_SUCCESS \<longrightarrow> orders ?d1 (payment_orderId ?p1) \<noteq> None"
    using o s by (auto simp: d1)
  show "\<exists>u. snd (handleWebhook t2 dto2 ?d1) = Inr u"
    by (rule handleWebhook_state(2)[OF f1 a1 o1])
  have "fst (handleWebhook t2 dto2 ?d1) =
      ?d1\<lparr> payments := webhook_rows t2 dto2 ?p1 (payments ?d1),
           orders := (if dto_status dto2 = PAY_SUCCESS
                      then (orders ?d1)(payment_orderId ?p1 :=
                             map_option (\<lambda>x. x\<lparr>order_status := CONFIRMED\<rparr>)
                               (orders ?d1 (payment_orderId ?p1)))
                      else orders ?d1) \<rparr>"
    by (rule handleWebhook_state(1)[OF f1 a1 o1])
  also have "\<dots> = d\<lparr> payments := webhook_rows t2 dto2 p (payments d),
              orders := (if dto_status dto = PAY_SUCCESS
                         then (orders d)(payment_orderId p :=
                                map_option (\<lambda>x. x\<lparr>order_status := CONFIRMED\<rparr>)
                                  (orders d (payment_orderId p)))
                         else orders d) \<rparr>"
    using s by (auto simp: d1 webhook_rows_twice option.map_comp comp_def)
  finally show "fst (handleWebhook t2 dto2 ?d1) = d\<lparr> payments := webhook_rows t2 dto2 p (payments d),
              orders := (if dto_status dto = PAY_SUCCESS
                         then (orders d)(payment_orderId p :=
                                map_option (\<lambda>x. x\<lparr>order_status := CONFIRMED\<rparr>)
                                  (orders d (payment_orderId p)))
                         else orders d) \<rparr>" .
qed

text \<open>
  Claim C10. For a callback with a known reference and the stored amount (and, when it
  reports success, an order row for the payment), the handler succeeds and rewrites the
  payment whatever its previous status: the status becomes the callback's, \<open>paidAt\<close>
  becomes the current time for \<open>SUCCESS\<close> and null otherwise. The order is written
  only for \<open>SUCCESS\<close> (its status becomes \<open>CONFIRMED\<close>); for any other status
  the orders are unchanged. Hence a \<open>FAILED\<close> callback after a successful one
  leaves the payment \<open>FAILED\<close> with a null \<open>paidAt\<close> and the order
  \<open>CONFIRMED\<close>.
\<close>

theorem handleWebhook_overwrites:
  assumes f: "find (\<lambda>q. reference q = dto_reference dto) (payments d) = Some p"
    and a: "Number (payment_amount p) = dto_amount dto"
    and o: "dto_status dto = PAY_SUCCESS \<longrightarrow> orders d (payment_orderId p) \<noteq> None"
  shows "(\<exists>u. snd (handleWebhook now dto d) = Inr u)
    \<and> find (\<lambda>q. reference q = dto_reference dto) (payments (fst (handleWebhook now dto d)))
        = Some (p\<lparr> payment_status := dto_status dto,
                    providerRef := Some (dto_reference dto),
                    paidAt := (if dto_status dto = PAY_SUCCESS then Some now else None),
                    metadata := Some dto \<rparr>)
    \<and> (dto_status dto = PAY_SUCCESS \<longrightarrow>
          orders (fst (handleWebhook now dto d))
            = (orders d)(payment_orderId p :=
                 map_option (\<lambda>x. x\<lparr>order_status := CONFIRMED\<rparr>) (orders d (payment_orderId p))))
    \<and> (dto_status dto \<noteq> PAY_SUCCESS \<longrightarrow> orders (fst (handleWebhook now dto d)) = orders d)
    \<and> (dto_status dto = PAY_SUCCESS \<longrightarrow>
          (\<exists>u. snd (handleWebhook later (dto\<lparr>dto_status := PAY_FAILED\<rparr>)
                       (fst (handleWebhook now dto d))) = Inr u)
        \<and> (\<exists>p2. find (\<lambda>q. reference q = dto_reference dto)
                    (payments (fst (handleWebhook later (dto\<lparr>dto_status := PAY_FAILED\<rparr>)
                                      (fst (handleWebhook now dto d))))) = Some p2
                \<and> payment_status p2 = PAY_FAILED \<and> paidAt p2 = None)
        \<and> map_option order_status
              (orders (fst (handleWebhook later (dto\<lparr>dto_status := PAY_FAILED\<rparr>)
                              (fst (handleWebhook now dto d)))) (payment_orderId p))
            = Some CONFIRMED)"
proof -
  note st = handleWebhook_state[OF f a o, of now]
  have 1: "\<exists>u. snd (handleWebhook now dto d) = Inr u" by (rule st(2))
  have 2: "find (\<lambda>q. reference q = dto_reference dto) (payments (fst (handleWebhook now dto d)))
        = Some (p\<lparr> payment_status := dto_status dto,
                    providerRef := Some (dto_reference dto),
                    paidAt := (if dto_status dto = PAY_SUCCESS then Some now else None),
                    metadata := Some dto \<rparr>)"
    using find_webhook_rows[OF f, of now dto] by (simp add: st(1) handleWebhook_data_def)
  have 3: "dto_status dto = PAY_SUCCESS \<longrightarrow>
          orders (fst (handleWebhook now dto d))
            = (orders d)(payment_orderId p :=
                 map_option (\<lambda>x. x\<lparr>order_status := CONFIRMED\<rparr>) (orders d (payment_orderId p)))"
    by (simp add: st(1))
  have 4: "dto_status dto \<noteq> PAY_SUCCESS \<longrightarrow> orders (fst (handleWebhook now dto d)) = orders d"
    by (simp add: st(1))
  have 5: "(\<exists>u. snd (handleWebhook later (dto\<lparr>dto_status := PAY_FAILED\<rparr>)
                       (fst (handleWebhook now dto d))) = Inr u)
        \<and> (\<exists>p2. find (\<lambda>q. reference q = dto_reference dto)
                    (payments (fst (handleWebhook later (dto\<lparr>dto_status := PAY_FAILED\<rparr>)
                                      (fst (handleWebhook now dto d))))) = Some p2
                \<and> payment_status p2 = PAY_FAILED \<and> paidAt p2 = None)
        \<and> map_option order_status
              (orders (fst (handleWebhook later (dto\<lparr>dto_status := PAY_FAILED\<rparr>)
                              (fst (handleWebhook now dto d)))) (payment_orderId p))
            = Some CONFIRMED"
    if s: "dto_status dto = PAY_SUCCESS"
  proof -
    let ?dto2 = "dto\<lparr>dto_status := PAY_FAILED\<rparr>"
    have r: "dto_reference ?dto2 = dto_reference dto" "dto_amount ?dto2 = dto_amount dto"
      and s2: "dto_status ?dto2 = PAY_SUCCESS \<longrightarrow> dto_status dto = PAY_SUCCESS"
      by simp_all
    note tw = handleWebhook_twice[OF f a o r s2, of later now]
    from o s obtain ord where ord: "orders d (payment_orderId p) = Some ord" by auto
    have "find (\<lambda>q. reference q = dto_reference dto)
            (payments (fst (handleWebhook later ?dto2 (fst (handleWebhook now dto d)))))
          = Some (handleWebhook_data later ?dto2 p)"
      using find_webhook_rows[OF f, of later ?dto2] by (simp add: tw(1))
    moreover have "map_option order_status
              (orders (fst (handleWebhook later ?dto2 (fst (handleWebhook now dto d))))
                 (payment_orderId p)) = Some CONFIRMED"
      using s ord by (simp add: tw(1))
    ultimately show ?thesis using tw(2) by simp
  qed
  from 1 2 3 4 5 show ?thesis by blast
qed

text \<open>The sample payment: a success at time 1000, then a failure at time 2000.\<close>

theorem handleWebhook_overwrites_witness:
  "(\<exists>p2. find (\<lambda>q. reference q = ''PAY-1'')
            (payments (fst (handleWebhook 2000 (callback PAY_FAILED)
                              (fst (handleWebhook 1000 (callback PAY_SUCCESS) store))))) = Some p2
        \<and> payment_status p2 = PAY_FAILED \<and> paidAt p2 = None)
   \<and> map_option order_status
        (orders (fst (handleWebhook 2000 (callback PAY_FAILED)
                        (fst (handleWebhook 1000 (callback PAY_SUCCESS) store)))) ''o1'')
      = Some CONFIRMED
   \<and> find (\<lambda>q. reference q = ''PAY-1'')
        (payments (fst (handleWebhook 1000 (callback PAY_SUCCESS) store)))
      = Some (payment1\<lparr> payment_status := PAY_SUCCESS, providerRef := Some ''PAY-1'',
                        paidAt := Some 1000, metadata := Some (callback PAY_SUCCESS) \<rparr>)
   \<and> orders (fst (handleWebhook 1000 (callback PAY_FAILED) store)) = orders store"
proof -
  have a: "Number (payment_amount payment1) = dto_amount (callback st)" for st
    by (simp add: payment1_def callback_def Number_def double_numeral)
  have o: "dto_status (callback st) = PAY_SUCCESS \<longrightarrow> orders store (payment_orderId payment1) \<noteq> None" for st
    by (simp add: store_def payment1_def)
  have c: "(callback PAY_SUCCESS)\<lparr>dto_status := PAY_FAILED\<rparr> = callback PAY_FAILED"
    by (simp add: callback_def)
  have r: "dto_reference (callback st) = ''PAY-1''" "dto_status (callback st) = st" for st
    by (simp_all add: callback_def)
  have i: "payment_orderId payment1 = ''o1''" by (simp add: payment1_def)
  from handleWebhook_overwrites[where dto = "callback PAY_SUCCESS" and now = 1000
         and later = 2000, OF store_payment_find a o]
       handleWebhook_overwrites[where dto = "callback PAY_FAILED" and now = 1000
         and later = 2000, OF store_payment_find a o]
  show ?thesis unfolding c r i by simp
qed

text \<open>
  Claim C6, as amended. Delivering the same \<open>SUCCESS\<close> callback twice (known
  reference, stored amount, order present) succeeds both times. The store after the two
  calls is the store that a single call at the time of the second one produces: the
  payment is \<open>SUCCESS\<close>, the order \<open>CONFIRMED\<close>, and \<open>paidAt\<close> is the
  time of the second call, since every call writes it.
\<close>

theorem handleWebhook_repeated_success:
  assumes f: "find (\<lambda>q. reference q = dto_reference dto) (payments d) = Some p"
    and a: "Number (payment_amount p) = dto_amount dto"
    and s: "dto_status dto = PAY_SUCCESS"
    and o: "orders d (payment_orderId p) \<noteq> None"
  shows "(\<exists>u. snd (handleWebhook t1 dto d) = Inr u)
    \<and> (\<exists>u. snd (handleWebhook t2 dto (fst (handleWebhook t1 dto d))) = Inr u)
    \<and> fst (handleWebhook t2 dto (fst (handleWebhook t1 dto d))) = fst (handleWebhook t2 dto d)
    \<and> find (\<lambda>q. reference q = dto_reference dto)
         (payments (fst (handleWebhook t2 dto (fst (handleWebhook t1 dto d)))))
        = Some (p\<lparr> payment_status := PAY_SUCCESS, providerRef := Some (dto_reference dto),
                    paidAt := Some t2, metadata := Some dto \<rparr>)
    \<and> map_option order_status
         (orders (fst (handleWebhook t2 dto (fst (handleWebhook t1 dto d)))) (payment_orderId p))
        = Some CONFIRMED"
proof -
  have o': "dto_status dto = PAY_SUCCESS \<longrightarrow> orders d (payment_orderId p) \<noteq> None"
    using o by simp
  note tw = handleWebhook_twice[OF f a o' refl refl, of t2 t1]
  note st = handleWebhook_state[OF f a o']
  from o obtain ord where ord: "orders d (payment_orderId p) = Some ord" by auto
  have "find (\<lambda>q. reference q = dto_reference dto)
         (payments (fst (handleWebhook t2 dto (fst (handleWebhook t1 dto d)))))
        = Some (handleWebhook_data t2 dto p)"
    using find_webhook_rows[OF f, of t2 dto] tw(1) by simp
  then show ?thesis
    using tw st(1)[of t2] st(2)[of t1] s ord by (simp add: handleWebhook_data_def)
qed

text \<open>The sample payment, confirmed at time 1000 and again at time 2000.\<close>

theorem handleWebhook_repeated_success_witness:
  "fst (handleWebhook 2000 (callback PAY_SUCCESS) (fst (handleWebhook 1000 (callback PAY_SUCCESS) store)))
     = fst (handleWebhook 2000 (callback PAY_SUCCESS) store)
   \<and> find (\<lambda>q. reference q = ''PAY-1'')
        (payments (fst (handleWebhook 2000 (callback PAY_SUCCESS)
                          (fst (handleWebhook 1000 (callback PAY_SUCCESS) store)))))
      = Some (payment1\<lparr> payment_status := PAY_SUCCESS, providerRef := Some ''PAY-1'',
                        paidAt := Some 2000, metadata := Some (callback PAY_SUCCESS) \<rparr>)"
proof -
  have a: "Number (payment_amount payment1) = dto_amount (callback PAY_SUCCESS)"
    by (simp add: payment1_def callback_def Number_def double_numeral)
  have s: "dto_status (callback PAY_SUCCESS) = PAY_SUCCESS" by (simp add: callback_def)
  have o: "orders store (payment_orderId payment1) \<noteq> None"
    by (simp add: store_def payment1_def)
  have r: "dto_reference (callback PAY_SUCCESS) = ''PAY-1''" by (simp add: callback_def)
  from handleWebhook_repeated_success[OF store_payment_find a s o, of 1000 2000]
  show ?thesis unfolding r by blast
qed

text \<open>
  The second delivery is not a no-op: it replaces the paid-timestamp 1000 by 2000, so
  the store after two deliveries differs from the store after one.
\<close>

theorem handleWebhook_idempotent_counterexample:
  "map paidAt (payments (fst (handleWebhook 1000 (callback PAY_SUCCESS) store))) = [Some 1000]
   \<and> map paidAt (payments (fst (handleWebhook 2000 (callback PAY_SUCCESS)
                                  (fst (handleWebhook 1000 (callback PAY_SUCCESS) store)))))
       = [Some 2000]
   \<and> fst (handleWebhook 2000 (callback PAY_SUCCESS)
            (fst (handleWebhook 1000 (callback PAY_SUCCESS) store)))
       \<noteq> fst (handleWebhook 1000 (callback PAY_SUCCESS) store)"
proof -
  have a: "Number (payment_amount payment1) = dto_amount (callback PAY_SUCCESS)"
    by (simp add: payment1_def callback_def Number_def double_numeral)
  have o: "dto_status (callback PAY_SUCCESS) = PAY_SUCCESS \<longrightarrow> orders store (payment_orderId payment1) \<noteq> None"
    by (simp add: store_def payment1_def)
  have s: "dto_status (callback PAY_SUCCESS) = PAY_SUCCESS" by (simp add: callback_def)
  have ps: "payments store = [payment1]" by (simp add: store_def)
  note once = handleWebhook_state(1)[OF store_payment_find a o, of 1000]
  note twice = handleWebhook_twice(1)[OF store_payment_find a o refl refl, of 2000 1000]
  have 1: "map paidAt (payments (fst (handleWebhook 1000 (callback PAY_SUCCESS) store))) = [Some 1000]"
    by (simp add: once webhook_rows_def ps s)
  have 2: "map paidAt (payments (fst (handleWebhook 2000 (callback PAY_SUCCESS)
                                  (fst (handleWebhook 1000 (callback PAY_SUCCESS) store)))))
       = [Some 2000]"
    by (simp add: twice webhook_rows_def ps s)
  from 1 2 show ?thesis by auto
qed

section \<open>Properties of checkout\<close>

lemma include_variant_ok:
  "\<forall>it\<in>set items. variants d (item_variantId it) \<noteq> None \<Longrightarrow>
   include_variant d items = Inr (map (\<lambda>it. (it, the (variants d (item_variantId it)))) items)"
  by (induction items) auto

lemma include_variant_length:
  "include_variant d items = Inr joined \<Longrightarrow> map fst joined = items"
  by (induction items arbitrary: joined) (auto split: option.splits sum.splits)

lemma include_variant_lookup:
  "include_variant d items = Inr joined \<Longrightarrow> (it, v) \<in> set joined \<Longrightarrow>
   variants d (item_variantId it) = Some v"
  by (induction items arbitrary: joined) (auto split: option.splits sum.splits)

lemma checkout_items_fold:
  "find (\<lambda>(it, v). stockQuantity v < item_quantity it) joined = None \<Longrightarrow>
   checkout_items joined sub acc =
     Inr (foldl (\<lambda>sum (item, variant).
                   js_add sum
                     (js_mul (js_add (Number (product_basePrice variant))
                                     (Number (priceModifier variant)))
                             (of_int (item_quantity item)))) sub joined,
          acc @ map order_line joined)"
  by (induction joined arbitrary: sub acc)
     (auto simp: order_line_def Let_def split: if_splits)

lemma checkout_items_ok:
  "find (\<lambda>(it, v). stockQuantity v < item_quantity it) joined = None \<Longrightarrow>
   checkout_items joined 0 acc = Inr (lines_total joined, acc @ map order_line joined)"
  unfolding lines_total_def by (rule checkout_items_fold)

lemma checkout_items_short:
  "find (\<lambda>(it, v). stockQuantity v < item_quantity it) joined = Some (it, v) \<Longrightarrow>
   checkout_items joined sub acc = Inl (InsufficientStockException (stockQuantity v))"
  by (induction joined arbitrary: sub acc) (auto simp: Let_def split: if_splits)

lemma decrement_stock_effect:
  "\<forall>i\<in>set ois. variants d (variantId i) \<noteq> None \<Longrightarrow>
   decrement_stock ois d =
     Inr (d\<lparr>variants := \<lambda>vid. map_option
            (\<lambda>v. v\<lparr>stockQuantity := stockQuantity v - units ois vid\<rparr>) (variants d vid)\<rparr>)"
proof (induction ois arbitrary: d)
  case Nil
  have "(\<lambda>vid. map_option (\<lambda>v. v\<lparr>stockQuantity := stockQuantity v - units [] vid\<rparr>)
           (variants d vid)) = variants d"
    by (rule ext) (simp add: units_def option.map_ident)
  then show ?case by simp
next
  case (Cons i ois)
  from Cons.prems obtain v where v: "variants d (variantId i) = Some v" by auto
  let ?d1 = "d\<lparr>variants := (variants d)(variantId i \<mapsto>
               v\<lparr>stockQuantity := stockQuantity v - quantity i\<rparr>)\<rparr>"
  have "\<forall>j\<in>set ois. variants ?d1 (variantId j) \<noteq> None"
    using Cons.prems by simp
  from Cons.IH[OF this]
  have "decrement_stock (i # ois) d =
     Inr (?d1\<lparr>variants := \<lambda>vid. map_option
            (\<lambda>v. v\<lparr>stockQuantity := stockQuantity v - units ois vid\<rparr>) (variants ?d1 vid)\<rparr>)"
    using v by (simp add: variant_update_def)
  moreover have "(\<lambda>vid. map_option
            (\<lambda>v. v\<lparr>stockQuantity := stockQuantity v - units ois vid\<rparr>) (variants ?d1 vid))
     = (\<lambda>vid. map_option
            (\<lambda>v. v\<lparr>stockQuantity := stockQuantity v - units (i # ois) vid\<rparr>) (variants d vid))"
    using v by (auto simp: units_def fun_eq_iff)
  ultimately show ?case by simp
qed

lemma units_absent:
  "vid \<notin> variantId ` set ois \<Longrightarrow> units ois vid = 0"
  by (induction ois) (auto simp: units_def)

lemma units_Cons:
  "units (i # ois) vid = (if variantId i = vid then quantity i else 0) + units ois vid"
  by (simp add: units_def)

lemma units_distinct:
  "distinct (map variantId ois) \<Longrightarrow> i \<in> set ois \<Longrightarrow> units ois (variantId i) = quantity i"
proof (induction ois)
  case Nil
  then show ?case by simp
next
  case (Cons j ois)
  show ?case
  proof (cases "i = j")
    case True
    with Cons.prems have "variantId i \<notin> variantId ` set ois" by auto
    from units_absent[OF this] True show ?thesis by (simp add: units_Cons)
  next
    case False
    with Cons.prems have "i \<in> set ois" "variantId j \<noteq> variantId i" by auto
    with Cons show ?thesis by (simp add: units_Cons)
  qed
qed

lemma checkout_read_ok:
  assumes c: "carts d userId = Some cart" and ne: "cart_items cart \<noteq> []"
    and a: "addresses d (addressId dto) = Some address" "address_userId address = userId"
    and j: "include_variant d (cart_items cart) = Inr joined"
    and st: "find (\<lambda>(it, v). stockQuantity v < item_quantity it) joined = None"
  shows "checkout_read userId dto d =
     Inr \<lparr> plan_cart = cart, plan_address = address,
           plan_orderItems = map order_line joined,
           plan_discount = coupon_discount (lines_total joined) (include_coupon d cart),
           plan_shippingCost = 2500,
           plan_totals = calculateOrderTotal (lines_total joined) 2500
                           (coupon_discount (lines_total joined) (include_coupon d cart)) \<rparr>"
proof -
  have "joined \<noteq> []" using include_variant_length[OF j] ne by auto
  then show ?thesis
    using c a j checkout_items_ok[OF st, of "[]"]
    by (cases "include_coupon d cart")
       (auto simp: checkout_read_def address_findFirst_def coupon_discount_def Let_def
             split: CouponType.splits)
qed

lemma checkout_read_short:
  assumes c: "carts d userId = Some cart" and ne: "cart_items cart \<noteq> []"
    and a: "addresses d (addressId dto) = Some address" "address_userId address = userId"
    and j: "include_variant d (cart_items cart) = Inr joined"
    and st: "find (\<lambda>(it, v). stockQuantity v < item_quantity it) joined = Some (it, v)"
  shows "checkout_read userId dto d = Inl (InsufficientStockException (stockQuantity v))"
proof -
  have "joined \<noteq> []" using include_variant_length[OF j] ne by auto
  then show ?thesis
    using c a j checkout_items_short[OF st, of 0 "[]"]
    by (auto simp: checkout_read_def address_findFirst_def)
qed

lemma checkout_tx_ok:
  assumes fresh: "orders d newId = None"
    and fk: "\<forall>i\<in>set (plan_orderItems plan). variants d (variantId i) \<noteq> None"
    and cp: "\<forall>cid. cart_couponId (plan_cart plan) = Some cid \<longrightarrow> cid \<noteq> [] \<longrightarrow>
               find (\<lambda>c. coupon_id c = cid) (coupons d) \<noteq> None"
    and c: "carts d userId = Some cart"
  shows "checkout_tx newId orderNo userId dto plan d =
     Inr (d\<lparr> orders := (orders d)(newId \<mapsto>
                 \<lparr> order_id = newId, orderNumber = orderNo, order_userId = userId,
                   order_status = PENDING,
                   order_subtotal = ot_discountedSubtotal (plan_totals plan),
                   order_discount = plan_discount plan,
                   order_shippingCost = plan_shippingCost plan,
                   order_vat = ot_vat (plan_totals plan),
                   order_total = ot_total (plan_totals plan),
                   shippingAddress = AddressSnapshot.truncate (plan_address plan),
                   order_notes = dto_notes dto,
                   order_couponId = cart_couponId (plan_cart plan),
                   order_items = plan_orderItems plan \<rparr>),
             variants := \<lambda>vid. map_option
                (\<lambda>v. v\<lparr>stockQuantity := stockQuantity v - units (plan_orderItems plan) vid\<rparr>)
                (variants d vid),
             coupons := (case cart_couponId (plan_cart plan) of
                           None \<Rightarrow> coupons d
                         | Some cid \<Rightarrow>
                             if cid = [] then coupons d
                             else map (\<lambda>x. if coupon_id x = cid
                                            then x\<lparr>usedCount := usedCount x + 1\<rparr> else x)
                                    (coupons d)),
             carts := (carts d)(userId \<mapsto> cart\<lparr>cart_items := [], cart_couponId := None\<rparr>) \<rparr>,
          \<lparr> order_id = newId, orderNumber = orderNo, order_userId = userId,
            order_status = PENDING,
            order_subtotal = ot_discountedSubtotal (plan_totals plan),
            order_discount = plan_discount plan,
            order_shippingCost = plan_shippingCost plan,
            order_vat = ot_vat (plan_totals plan),
            order_total = ot_total (plan_totals plan),
            shippingAddress = AddressSnapshot.truncate (plan_address plan),
            order_notes = dto_notes dto,
            order_couponId = cart_couponId (plan_cart plan),
            order_items = plan_orderItems plan \<rparr>)"
proof -
  let ?ord = "\<lparr> order_id = newId, orderNumber = orderNo, order_userId = userId,
            order_status = PENDING,
            order_subtotal = ot_discountedSubtotal (plan_totals plan),
            order_discount = plan_discount plan,
            order_shippingCost = plan_shippingCost plan,
            order_vat = ot_vat (plan_totals plan),
            order_total = ot_total (plan_totals plan),
            shippingAddress = AddressSnapshot.truncate (plan_address plan),
            order_notes = dto_notes dto,
            order_couponId = cart_couponId (plan_cart plan),
            order_items = plan_orderItems plan \<rparr>"
  let ?d1 = "d\<lparr>orders := (orders d)(newId \<mapsto> ?ord)\<rparr>"
  have 1: "order_create ?ord d = Inr ?d1" using fresh by (simp add: order_create_def)
  have "\<forall>i\<in>set (plan_orderItems plan). variants ?d1 (variantId i) \<noteq> None"
    using fk by simp
  note 2 = decrement_stock_effect[OF this]
  show ?thesis
  proof (cases "cart_couponId (plan_cart plan)")
    case None
    then show ?thesis
      using 1 2 c
      by (simp add: checkout_tx_def Let_def cart_update_def cartItem_deleteMany_def)
  next
    case (Some cid)
    show ?thesis
    proof (cases "cid = []")
      case True
      then show ?thesis
        using 1 2 c Some
        by (simp add: checkout_tx_def Let_def cart_update_def cartItem_deleteMany_def)
    next
      case False
      with cp Some obtain k where "find (\<lambda>c. coupon_id c = cid) (coupons d) = Some k"
        by auto
      then show ?thesis
        using 1 2 c Some False
        by (simp add: checkout_tx_def Let_def cart_update_def cartItem_deleteMany_def
            coupon_update_def update_row_def)
    qed
  qed
qed

lemma find_offending:
  "(it, v) \<in> set joined \<Longrightarrow> stockQuantity v < item_quantity it \<Longrightarrow>
   \<exists>it' v'. find (\<lambda>(it, v). stockQuantity v < item_quantity it) joined = Some (it', v')"
  by (induction joined) auto

lemma include_variant_member:
  "include_variant d items = Inr joined \<Longrightarrow> it \<in> set items \<Longrightarrow>
   variants d (item_variantId it) = Some v \<Longrightarrow> (it, v) \<in> set joined"
  by (induction items arbitrary: joined) (auto split: option.splits sum.splits)

lemma checkout_read_Inl_cases:
  assumes "carts d userId = None
     \<or> (\<exists>cart. carts d userId = Some cart
           \<and> (cart_items cart = []
              \<or> (\<exists>it\<in>set (cart_items cart). \<exists>v. variants d (item_variantId it) = Some v
                    \<and> stockQuantity v < item_quantity it)))
     \<or> address_findFirst d (addressId dto) userId = None"
  shows "\<exists>e. checkout_read userId dto d = Inl e"
proof (cases "carts d userId")
  case None
  then show ?thesis by (simp add: checkout_read_def)
next
  case (Some cart)
  show ?thesis
  proof (cases "include_variant d (cart_items cart)")
    case (Inl e)
    with Some show ?thesis by (simp add: checkout_read_def)
  next
    case (Inr joined)
    show ?thesis
    proof (cases "joined = [] \<or> address_findFirst d (addressId dto) userId = None")
      case True
      with Some Inr show ?thesis by (auto simp: checkout_read_def)
    next
      case False
      then have ne: "cart_items cart \<noteq> []"
        using include_variant_length[OF Inr] by auto
      with assms Some False obtain it v where
        "it \<in> set (cart_items cart)" "variants d (item_variantId it) = Some v"
        "stockQuantity v < item_quantity it" by auto
      with include_variant_member[OF Inr] find_offending[of it v joined]
      obtain it' v' where
        "find (\<lambda>(it, v). stockQuantity v < item_quantity it) joined = Some (it', v')"
        by blast
      from checkout_items_short[OF this, of 0 "[]"] Some Inr False
      show ?thesis by (auto simp: checkout_read_def)
    qed
  qed
qed

text \<open>
  Claim C1. A checkout that aborts leaves the store exactly as it was: no order and no
  order items are added, no stock, no coupon count and no cart changes. An empty or
  missing cart, an address that does not exist or belongs to another user, and a line
  whose quantity exceeds the stock of its variant each make checkout abort.
\<close>

theorem checkout_atomic:
  "(carts d userId = None
     \<or> (\<exists>cart. carts d userId = Some cart
           \<and> (cart_items cart = []
              \<or> (\<exists>it\<in>set (cart_items cart). \<exists>v. variants d (item_variantId it) = Some v
                    \<and> stockQuantity v < item_quantity it)))
     \<or> address_findFirst d (addressId dto) userId = None
     \<longrightarrow> (\<exists>e. checkout newId orderNo userId dto d = (d, Inl e)))
   \<and> (\<forall>d' e. checkout newId orderNo userId dto d = (d', Inl e) \<longrightarrow> d' = d)"
proof (intro conjI impI allI)
  assume "carts d userId = None
     \<or> (\<exists>cart. carts d userId = Some cart
           \<and> (cart_items cart = []
              \<or> (\<exists>it\<in>set (cart_items cart). \<exists>v. variants d (item_variantId it) = Some v
                    \<and> stockQuantity v < item_quantity it)))
     \<or> address_findFirst d (addressId dto) userId = None"
  from checkout_read_Inl_cases[OF this]
  show "\<exists>e. checkout newId orderNo userId dto d = (d, Inl e)"
    by (auto simp: checkout_def)
next
  fix d' e
  assume "checkout newId orderNo userId dto d = (d', Inl e)"
  then show "d' = d"
    by (auto simp: checkout_def split: sum.splits dest: transaction_Inl)
qed

lemma store_carts:
  "carts store ''u1'' = Some \<lparr> cart_items = [\<lparr>item_variantId = ''vA'', item_quantity = 2\<rparr>,
                                     \<lparr>item_variantId = ''vB'', item_quantity = 1\<rparr>],
                       cart_couponId = Some ''c1'' \<rparr>"
  "carts store ''u2'' = Some \<lparr> cart_items = [\<lparr>item_variantId = ''vC'', item_quantity = 1\<rparr>],
                       cart_couponId = None \<rparr>"
  "carts store ''u3'' = Some \<lparr> cart_items = [\<lparr>item_variantId = ''vC'', item_quantity = 1\<rparr>],
                       cart_couponId = None \<rparr>"
  "carts store ''u4'' = Some \<lparr> cart_items = [\<lparr>item_variantId = ''vA'', item_quantity = 1\<rparr>,
                                     \<lparr>item_variantId = ''vB'', item_quantity = 4\<rparr>],
                       cart_couponId = None \<rparr>"
  by (simp_all add: store_def)

lemma store_variants:
  "variants store ''vA'' = Some variantA"
  "variants store ''vB'' = Some variantB"
  "variants store ''vC'' = Some variantC"
  by (simp_all add: store_def)

lemma store_addresses:
  "addresses store ''a1'' = Some (AddressSnapshot.extend home \<lparr>address_userId = ''u1''\<rparr>)"
  "addresses store ''a2'' = Some (AddressSnapshot.extend home \<lparr>address_userId = ''u2''\<rparr>)"
  "addresses store ''a3'' = Some (AddressSnapshot.extend home \<lparr>address_userId = ''u3''\<rparr>)"
  "addresses store ''a4'' = Some (AddressSnapshot.extend home \<lparr>address_userId = ''u4''\<rparr>)"
  by (simp_all add: store_def)

lemma store_tables:
  "orders store = [''o1'' \<mapsto> order1]"
  "coupons store = [coupon1, coupon0]"
  "payments store = [payment1]"
  by (simp_all add: store_def)

text \<open>
  An abort before the transaction (a line of four when three are in stock), and an abort
  inside it, after the order was created and the stock decremented (the attached coupon
  has no row): each leaves the store as it was.
\<close>

theorem checkout_atomic_witness:
  "checkout ''o2'' ''VT-2'' ''u4'' (ship_to ''a4'') store
     = (store, Inl (InsufficientStockException 3))
   \<and> checkout ''o2'' ''VT-2'' ''u1'' (ship_to ''a1'') (store\<lparr>coupons := []\<rparr>)
     = (store\<lparr>coupons := []\<rparr>, Inl RecordNotFound)"
proof -
  have 1: "snd (checkout ''o2'' ''VT-2'' ''u4'' (ship_to ''a4'') store)
             = Inl (InsufficientStockException 3)"
    by (simp add: checkout_def checkout_read_def store_carts store_variants store_addresses
        address_findFirst_def ship_to_def AddressSnapshot.extend_def variantA_def variantB_def)
  have 2: "snd (checkout ''o2'' ''VT-2'' ''u1'' (ship_to ''a1'') (store\<lparr>coupons := []\<rparr>))
             = Inl RecordNotFound"
    by (simp add: checkout_def checkout_read_def store_carts store_variants store_addresses
        store_tables address_findFirst_def ship_to_def AddressSnapshot.extend_def
        variantA_def variantB_def include_coupon_def Let_def transaction_def checkout_tx_def
        order_create_def variant_update_def coupon_update_def update_row_def)
  from checkout_atomic[of store "''u4''" "ship_to ''a4''" "''o2''" "''VT-2''"]
       checkout_atomic[of "store\<lparr>coupons := []\<rparr>" "''u1''" "ship_to ''a1''" "''o2''" "''VT-2''"]
       1 2
  show ?thesis by (metis prod.collapse)
qed

lemma checkout_ok:
  assumes c: "carts d userId = Some cart" and ne: "cart_items cart \<noteq> []"
    and a: "addresses d (addressId dto) = Some address" "address_userId address = userId"
    and j: "include_variant d (cart_items cart) = Inr joined"
    and st: "find (\<lambda>(it, v). stockQuantity v < item_quantity it) joined = None"
    and fresh: "orders d newId = None"
    and cp: "\<forall>cid. cart_couponId cart = Some cid \<longrightarrow> cid \<noteq> [] \<longrightarrow>
               find (\<lambda>c. coupon_id c = cid) (coupons d) \<noteq> None"
  shows "\<exists>ord. checkout newId orderNo userId dto d =
     (d\<lparr> orders := (orders d)(newId \<mapsto> ord),
         variants := \<lambda>vid. map_option
            (\<lambda>v. v\<lparr>stockQuantity := stockQuantity v - units (map order_line joined) vid\<rparr>)
            (variants d vid),
         coupons := (case cart_couponId cart of
                       None \<Rightarrow> coupons d
                     | Some cid \<Rightarrow>
                         if cid = [] then coupons d
                         else map (\<lambda>x. if coupon_id x = cid
                                        then x\<lparr>usedCount := usedCount x + 1\<rparr> else x)
                                (coupons d)),
         carts := (carts d)(userId \<mapsto> cart\<lparr>cart_items := [], cart_couponId := None\<rparr>) \<rparr>,
      Inr ord)
    \<and> order_id ord = newId \<and> order_userId ord = userId \<and> order_status ord = PENDING
    \<and> order_items ord = map order_line joined
    \<and> order_discount ord = coupon_discount (lines_total joined) (include_coupon d cart)"
proof -
  let ?plan = "\<lparr> plan_cart = cart, plan_address = address,
           plan_orderItems = map order_line joined,
           plan_discount = coupon_discount (lines_total joined) (include_coupon d cart),
           plan_shippingCost = 2500,
           plan_totals = calculateOrderTotal (lines_total joined) 2500
                           (coupon_discount (lines_total joined) (include_coupon d cart)) \<rparr>"
  have r: "checkout_read userId dto d = Inr ?plan"
    by (rule checkout_read_ok[OF c ne a j st])
  have fk: "\<forall>i\<in>set (plan_orderItems ?plan). variants d (variantId i) \<noteq> None"
    using include_variant_lookup[OF j] by (auto simp: order_line_def)
  have cp': "\<forall>cid. cart_couponId (plan_cart ?plan) = Some cid \<longrightarrow> cid \<noteq> [] \<longrightarrow>
               find (\<lambda>c. coupon_id c = cid) (coupons d) \<noteq> None"
    using cp by simp
  show ?thesis
    unfolding checkout_def r
    by (simp add: transaction_def checkout_tx_ok[OF fresh fk cp' c])
qed

lemma order_line_ids: "map variantId (map order_line joined) = map (item_variantId \<circ> fst) joined"
  by (induction joined) (auto simp: order_line_def)

lemma units_order_line:
  assumes j: "include_variant d items = Inr joined" and dist: "distinct (map item_variantId items)"
    and m: "it \<in> set items"
  shows "units (map order_line joined) (item_variantId it) = item_quantity it"
proof -
  from m include_variant_length[OF j] obtain v where v: "(it, v) \<in> set joined"
    by (metis (no_types, opaque_lifting) fst_conv imageE list.set_map prod.collapse)
  have "distinct (map variantId (map order_line joined))"
    using dist include_variant_length[OF j] by (simp add: order_line_ids flip: map_map)
  moreover have "order_line (it, v) \<in> set (map order_line joined)"
    using v by simp
  ultimately have "units (map order_line joined) (variantId (order_line (it, v)))
      = quantity (order_line (it, v))"
    by (rule units_distinct)
  then show ?thesis by (simp add: order_line_def)
qed

lemma units_order_line_absent:
  assumes j: "include_variant d items = Inr joined"
    and m: "vid \<notin> item_variantId ` set items"
  shows "units (map order_line joined) vid = 0"
proof -
  have "variantId ` set (map order_line joined) = item_variantId ` set items"
    using include_variant_length[OF j] order_line_ids[of joined]
    by (metis list.set_map map_map)
  with m show ?thesis by (intro units_absent) simp
qed

lemma find_offending_none:
  "find (\<lambda>(it, v). stockQuantity v < item_quantity it) joined = None \<longleftrightarrow>
   (\<forall>(it, v)\<in>set joined. item_quantity it \<le> stockQuantity v)"
  by (induction joined) auto

lemma joined_member:
  assumes j: "include_variant d items = Inr joined" and m: "(it, v) \<in> set joined"
  shows "it \<in> set items"
proof -
  from m have "fst (it, v) \<in> set (map fst joined)" by (intro image_eqI[of _ fst "(it, v)"] | simp)+
  then show ?thesis using include_variant_length[OF j] by simp
qed

lemma in_stock_none:
  assumes j: "include_variant d items = Inr joined"
    and h: "\<forall>it\<in>set items. \<forall>v. variants d (item_variantId it) = Some v
              \<longrightarrow> item_quantity it \<le> stockQuantity v"
  shows "find (\<lambda>(it, v). stockQuantity v < item_quantity it) joined = None"
  unfolding find_offending_none
proof (clarify)
  fix it v assume m: "(it, v) \<in> set joined"
  from joined_member[OF j m] include_variant_lookup[OF j m] h
  show "item_quantity it \<le> stockQuantity v" by blast
qed

lemma find_offending_member:
  "find (\<lambda>(it, v). stockQuantity v < item_quantity it) joined = Some (it, v) \<Longrightarrow>
   (it, v) \<in> set joined \<and> stockQuantity v < item_quantity it"
  using find_Some_pred[of "\<lambda>(it, v). stockQuantity v < item_quantity it" joined "(it, v)"]
  by simp

lemma find_over_stock:
  "include_variant d items = Inr joined \<Longrightarrow>
   find (\<lambda>(it, v). stockQuantity v < item_quantity it) joined = Some (it, v) \<Longrightarrow>
   find (over_stock d) items = Some it"
  by (induction items arbitrary: joined)
     (auto simp: over_stock_def split: option.splits sum.splits if_splits)

text \<open>
  Claim C2, as amended. For one checkout call on a store in which the caller has a
  non-empty cart whose lines name existing variants, and a shipping address of the
  caller: if some line's quantity exceeds the stock of its variant, checkout aborts with
  the insufficient-stock error that carries the stock of the variant of the first such
  line in cart order, and the store is unchanged. If every line's quantity is within
  stock, the lines name distinct variants, the new order id is unused and the attached
  coupon (if any) exists, checkout succeeds, the stock of the variant of every line is
  decremented by exactly the line's quantity, and no other variant changes.
\<close>

theorem checkout_stock_sequential:
  assumes c: "carts d userId = Some cart" and ne: "cart_items cart \<noteq> []"
    and a: "addresses d (addressId dto) = Some address" "address_userId address = userId"
    and fk: "\<forall>it\<in>set (cart_items cart). variants d (item_variantId it) \<noteq> None"
  shows "((\<exists>it\<in>set (cart_items cart). \<exists>v. variants d (item_variantId it) = Some v
              \<and> stockQuantity v < item_quantity it) \<longrightarrow>
          (\<exists>it\<in>set (cart_items cart). \<exists>v. variants d (item_variantId it) = Some v
              \<and> stockQuantity v < item_quantity it
              \<and> find (over_stock d) (cart_items cart) = Some it
              \<and> checkout newId orderNo userId dto d
                   = (d, Inl (InsufficientStockException (stockQuantity v)))))
    \<and> ((\<forall>it\<in>set (cart_items cart). \<forall>v. variants d (item_variantId it) = Some v
              \<longrightarrow> item_quantity it \<le> stockQuantity v)
         \<and> distinct (map item_variantId (cart_items cart))
         \<and> orders d newId = None
         \<and> (\<forall>cid. cart_couponId cart = Some cid \<longrightarrow> cid \<noteq> [] \<longrightarrow>
                (\<exists>k\<in>set (coupons d). coupon_id k = cid)) \<longrightarrow>
          (\<exists>ord. snd (checkout newId orderNo userId dto d) = Inr ord)
          \<and> (\<forall>it\<in>set (cart_items cart). \<forall>v. variants d (item_variantId it) = Some v \<longrightarrow>
                variants (fst (checkout newId orderNo userId dto d)) (item_variantId it)
                  = Some (v\<lparr>stockQuantity := stockQuantity v - item_quantity it\<rparr>))
          \<and> (\<forall>vid. vid \<notin> item_variantId ` set (cart_items cart) \<longrightarrow>
                variants (fst (checkout newId orderNo userId dto d)) vid = variants d vid))"
proof -
  from include_variant_ok[OF fk] obtain joined
    where j: "include_variant d (cart_items cart) = Inr joined" by blast
  have short: "\<exists>it\<in>set (cart_items cart). \<exists>v. variants d (item_variantId it) = Some v
              \<and> stockQuantity v < item_quantity it
              \<and> find (over_stock d) (cart_items cart) = Some it
              \<and> checkout newId orderNo userId dto d
                   = (d, Inl (InsufficientStockException (stockQuantity v)))"
    if "\<exists>it\<in>set (cart_items cart). \<exists>v. variants d (item_variantId it) = Some v
              \<and> stockQuantity v < item_quantity it"
  proof -
    from that obtain it v where "it \<in> set (cart_items cart)"
      "variants d (item_variantId it) = Some v" "stockQuantity v < item_quantity it"
      by blast
    with include_variant_member[OF j] find_offending[of it v joined]
    obtain it' v' where
      f: "find (\<lambda>(it, v). stockQuantity v < item_quantity it) joined = Some (it', v')"
      by blast
    from find_offending_member[OF f] have m: "(it', v') \<in> set joined"
      and lt: "stockQuantity v' < item_quantity it'" by simp_all
    have 1: "it' \<in> set (cart_items cart)" by (rule joined_member[OF j m])
    have 2: "variants d (item_variantId it') = Some v'"
      by (rule include_variant_lookup[OF j m])
    have 3: "checkout newId orderNo userId dto d
                   = (d, Inl (InsufficientStockException (stockQuantity v')))"
      using checkout_read_short[OF c ne a j f] by (simp add: checkout_def)
    have 4: "find (over_stock d) (cart_items cart) = Some it'"
      by (rule find_over_stock[OF j f])
    from 1 2 3 4 lt show ?thesis by blast
  qed
  have good: "(\<exists>ord. snd (checkout newId orderNo userId dto d) = Inr ord)
          \<and> (\<forall>it\<in>set (cart_items cart). \<forall>v. variants d (item_variantId it) = Some v \<longrightarrow>
                variants (fst (checkout newId orderNo userId dto d)) (item_variantId it)
                  = Some (v\<lparr>stockQuantity := stockQuantity v - item_quantity it\<rparr>))
          \<and> (\<forall>vid. vid \<notin> item_variantId ` set (cart_items cart) \<longrightarrow>
                variants (fst (checkout newId orderNo userId dto d)) vid = variants d vid)"
    if h1: "\<forall>it\<in>set (cart_items cart). \<forall>v. variants d (item_variantId it) = Some v
              \<longrightarrow> item_quantity it \<le> stockQuantity v"
      and h2: "distinct (map item_variantId (cart_items cart))"
      and fresh: "orders d newId = None"
      and h4: "\<forall>cid. cart_couponId cart = Some cid \<longrightarrow> cid \<noteq> [] \<longrightarrow>
                (\<exists>k\<in>set (coupons d). coupon_id k = cid)"
  proof -
    have st: "find (\<lambda>(it, v). stockQuantity v < item_quantity it) joined = None"
      by (rule in_stock_none[OF j h1])
    have cp: "\<forall>cid. cart_couponId cart = Some cid \<longrightarrow> cid \<noteq> [] \<longrightarrow>
               find (\<lambda>c. coupon_id c = cid) (coupons d) \<noteq> None"
    proof (intro allI impI)
      fix cid assume "cart_couponId cart = Some cid" "cid \<noteq> []"
      with h4 obtain k where k: "k \<in> set (coupons d)" "coupon_id k = cid" by blast
      from find_exists[of k "coupons d" "\<lambda>c. coupon_id c = cid"] k
      show "find (\<lambda>c. coupon_id c = cid) (coupons d) \<noteq> None"
        by auto
    qed
    from checkout_ok[OF c ne a j st fresh cp, of orderNo]
    obtain ord d' where r: "checkout newId orderNo userId dto d = (d', Inr ord)"
      and v: "variants d' = (\<lambda>vid. map_option
            (\<lambda>v. v\<lparr>stockQuantity := stockQuantity v - units (map order_line joined) vid\<rparr>)
            (variants d vid))"
      by force
    have a1: "\<exists>ord. snd (checkout newId orderNo userId dto d) = Inr ord"
      by (simp add: r)
    have a2: "variants (fst (checkout newId orderNo userId dto d)) (item_variantId it)
                  = Some (w\<lparr>stockQuantity := stockQuantity w - item_quantity it\<rparr>)"
      if "it \<in> set (cart_items cart)" "variants d (item_variantId it) = Some w" for it w
      using that units_order_line[OF j h2 that(1)] by (simp add: r v)
    have a3: "variants (fst (checkout newId orderNo userId dto d)) vid = variants d vid"
      if "vid \<notin> item_variantId ` set (cart_items cart)" for vid
      using units_order_line_absent[OF j that] by (simp add: r v option.map_ident)
    from a1 a2 a3 show ?thesis by blast
  qed
  from short good show ?thesis by blast
qed

lemmas store_eval =
  store_carts store_variants store_addresses store_tables address_findFirst_def ship_to_def
  AddressSnapshot.extend_def include_coupon_def Let_def transaction_def checkout_def
  checkout_read_def checkout_tx_def order_create_def variant_update_def coupon_update_def
  update_row_def cart_update_def cartItem_deleteMany_def

lemma scarce_tables:
  "carts scarce = carts store" "addresses scarce = addresses store"
  "variants scarce ''vA'' = Some (variantA\<lparr>stockQuantity := 0\<rparr>)"
  "variants scarce ''vB'' = Some variantB"
  by (simp_all add: scarce_def store_variants)

text \<open>
  On the sample store: a cart with a line of four units of a variant with three in stock,
  and a cart of two lines that are both in stock. With variant A out of stock both lines
  of the first cart are above their stock, and the error carries the stock of the first.
\<close>

theorem checkout_stock_sequential_witness:
  "checkout ''o9'' ''VT-9'' ''u4'' (ship_to ''a4'') store
     = (store, Inl (InsufficientStockException 3))
   \<and> find (over_stock scarce) [\<lparr>item_variantId = ''vA'', item_quantity = 1\<rparr>,
                                \<lparr>item_variantId = ''vB'', item_quantity = 4\<rparr>]
       = Some \<lparr>item_variantId = ''vA'', item_quantity = 1\<rparr>
   \<and> over_stock scarce \<lparr>item_variantId = ''vB'', item_quantity = 4\<rparr>
   \<and> checkout ''o9'' ''VT-9'' ''u4'' (ship_to ''a4'') scarce
       = (scarce, Inl (InsufficientStockException 0))
   \<and> variants (fst (checkout ''o2'' ''VT-2'' ''u1'' (ship_to ''a1'') store)) ''vA''
       = Some (variantA\<lparr>stockQuantity := 3\<rparr>)
   \<and> variants (fst (checkout ''o2'' ''VT-2'' ''u1'' (ship_to ''a1'') store)) ''vB''
       = Some (variantB\<lparr>stockQuantity := 2\<rparr>)
   \<and> variants (fst (checkout ''o2'' ''VT-2'' ''u1'' (ship_to ''a1'') store)) ''vC''
       = Some variantC"
proof -
  have s: "stockQuantity variantA = 5" "stockQuantity variantB = 3"
    by (simp_all add: variantA_def variantB_def)
  have a4: "address_userId (AddressSnapshot.extend home \<lparr>address_userId = ''u4''\<rparr>) = ''u4''"
    and a1: "address_userId (AddressSnapshot.extend home \<lparr>address_userId = ''u1''\<rparr>) = ''u1''"
    by (simp_all add: AddressSnapshot.extend_def)
  have ad4: "addresses store (addressId (ship_to ''a4''))
               = Some (AddressSnapshot.extend home \<lparr>address_userId = ''u4''\<rparr>)"
    and ad1: "addresses store (addressId (ship_to ''a1''))
               = Some (AddressSnapshot.extend home \<lparr>address_userId = ''u1''\<rparr>)"
    by (simp_all add: ship_to_def store_addresses)
  have c4: "carts scarce ''u4'' =
              Some \<lparr> cart_items = [\<lparr>item_variantId = ''vA'', item_quantity = 1\<rparr>,
                                     \<lparr>item_variantId = ''vB'', item_quantity = 4\<rparr>],
                     cart_couponId = None \<rparr>"
    and sd4: "addresses scarce (addressId (ship_to ''a4''))
               = Some (AddressSnapshot.extend home \<lparr>address_userId = ''u4''\<rparr>)"
    by (simp_all add: scarce_tables store_carts ad4)
  have "\<exists>it\<in>set [\<lparr>item_variantId = ''vA'', item_quantity = 1\<rparr>,
                   \<lparr>item_variantId = ''vB'', item_quantity = 4\<rparr>].
          \<exists>v. variants store (item_variantId it) = Some v
              \<and> stockQuantity v < item_quantity it
              \<and> find (over_stock store) [\<lparr>item_variantId = ''vA'', item_quantity = 1\<rparr>,
                                          \<lparr>item_variantId = ''vB'', item_quantity = 4\<rparr>]
                  = Some it
              \<and> checkout ''o9'' ''VT-9'' ''u4'' (ship_to ''a4'') store
                   = (store, Inl (InsufficientStockException (stockQuantity v)))"
    using checkout_stock_sequential[OF store_carts(4) _ ad4 a4, of "''o9''" "''VT-9''"]
    by (simp add: store_variants s)
  then have 1: "checkout ''o9'' ''VT-9'' ''u4'' (ship_to ''a4'') store
     = (store, Inl (InsufficientStockException 3))"
    by (auto simp: store_variants s)
  have f: "find (over_stock scarce) [\<lparr>item_variantId = ''vA'', item_quantity = 1\<rparr>,
                                     \<lparr>item_variantId = ''vB'', item_quantity = 4\<rparr>]
             = Some \<lparr>item_variantId = ''vA'', item_quantity = 1\<rparr>"
    and o: "over_stock scarce \<lparr>item_variantId = ''vB'', item_quantity = 4\<rparr>"
    by (simp_all add: over_stock_def scarce_tables s)
  have "\<exists>it\<in>set [\<lparr>item_variantId = ''vA'', item_quantity = 1\<rparr>,
                   \<lparr>item_variantId = ''vB'', item_quantity = 4\<rparr>].
          \<exists>v. variants scarce (item_variantId it) = Some v
              \<and> stockQuantity v < item_quantity it
              \<and> find (over_stock scarce) [\<lparr>item_variantId = ''vA'', item_quantity = 1\<rparr>,
                                           \<lparr>item_variantId = ''vB'', item_quantity = 4\<rparr>]
                  = Some it
              \<and> checkout ''o9'' ''VT-9'' ''u4'' (ship_to ''a4'') scarce
                   = (scarce, Inl (InsufficientStockException (stockQuantity v)))"
    using checkout_stock_sequential[OF c4 _ sd4 a4, of "''o9''" "''VT-9''"]
    by (simp add: scarce_tables s)
  then have 3: "checkout ''o9'' ''VT-9'' ''u4'' (ship_to ''a4'') scarce
     = (scarce, Inl (InsufficientStockException 0))"
    unfolding f by (auto simp: scarce_tables)
  have 2: "variants (fst (checkout ''o2'' ''VT-2'' ''u1'' (ship_to ''a1'') store)) ''vA''
             = Some (variantA\<lparr>stockQuantity := 3\<rparr>)
         \<and> variants (fst (checkout ''o2'' ''VT-2'' ''u1'' (ship_to ''a1'') store)) ''vB''
             = Some (variantB\<lparr>stockQuantity := 2\<rparr>)
         \<and> variants (fst (checkout ''o2'' ''VT-2'' ''u1'' (ship_to ''a1'') store)) ''vC''
             = Some variantC"
    using checkout_stock_sequential[OF store_carts(1) _ ad1 a1, of "''o2''" "''VT-2''"]
    by (simp add: store_variants s store_tables coupon1_def)
  from 1 2 3 f o show ?thesis by simp
qed

text \<open>
  A line above its stock does not always give the insufficient-stock error: with an
  address of another user the error is the missing address. And the stock check is not
  part of the transaction: its callback, run with what the reads of user u2 produced on
  a store in which variant C has meanwhile been sold out, creates the order and leaves
  the stock of variant C at -1.
\<close>

theorem checkout_stock_check_counterexample:
  "checkout ''o2'' ''VT-2'' ''u4'' (ship_to ''a1'') store
     = (store, Inl (NotFoundException ''Shipping address''))
   \<and> checkout_read ''u2'' (ship_to ''a2'') store = Inr plan_u2
   \<and> map_option stockQuantity (variants sold_out ''vC'') = Some 0
   \<and> map_sum id order_id
        (snd (transaction (checkout_tx ''o2'' ''VT-2'' ''u2'' (ship_to ''a2'') plan_u2) sold_out))
       = Inr ''o2''
   \<and> map_option stockQuantity
        (variants (fst (transaction (checkout_tx ''o2'' ''VT-2'' ''u2'' (ship_to ''a2'') plan_u2)
                          sold_out)) ''vC'')
       = Some (- 1)"
proof -
  have 1: "checkout ''o2'' ''VT-2'' ''u4'' (ship_to ''a1'') store
     = (store, Inl (NotFoundException ''Shipping address''))"
    by (simp add: store_eval variantA_def variantB_def)
  have 2: "checkout_read ''u2'' (ship_to ''a2'') store = Inr plan_u2"
    by (simp add: store_eval variantC_def plan_u2_def js_ops double_numeral)
  have 3: "map_option stockQuantity (variants sold_out ''vC'') = Some 0"
    by (simp add: sold_out_def)
  have 4: "map_sum id order_id
        (snd (transaction (checkout_tx ''o2'' ''VT-2'' ''u2'' (ship_to ''a2'') plan_u2) sold_out))
       = Inr ''o2''"
    by (simp add: store_eval sold_out_def plan_u2_def)
  have 5: "map_option stockQuantity
        (variants (fst (transaction (checkout_tx ''o2'' ''VT-2'' ''u2'' (ship_to ''a2'') plan_u2)
                          sold_out)) ''vC'')
       = Some (- 1)"
    by (simp add: store_eval sold_out_def plan_u2_def)
  from 1 2 3 4 5 show ?thesis by simp
qed










text \<open>
  Claim C3. Two checkouts of the last unit of variant C that are served at the same
  time: both run their stock check while the unit is still there, both transactions
  commit, two units are sold and the stock of variant C ends at -1. Served one after
  the other, the second checkout is refused.
\<close>

theorem checkout_overlapped_oversells:
  "map_option stockQuantity (variants store ''vC'') = Some 1
   \<and> map_sum id order_id
        (fst (snd (checkout_overlapped (''o2'', ''VT-2'', ''u2'', ship_to ''a2'')
                     (''o3'', ''VT-3'', ''u3'', ship_to ''a3'') store))) = Inr ''o2''
   \<and> map_sum id order_id
        (snd (snd (checkout_overlapped (''o2'', ''VT-2'', ''u2'', ship_to ''a2'')
                     (''o3'', ''VT-3'', ''u3'', ship_to ''a3'') store))) = Inr ''o3''
   \<and> map_option stockQuantity
        (variants (fst (checkout_overlapped (''o2'', ''VT-2'', ''u2'', ship_to ''a2'')
                          (''o3'', ''VT-3'', ''u3'', ship_to ''a3'') store)) ''vC'')
       = Some (- 1)
   \<and> snd (checkout ''o3'' ''VT-3'' ''u3'' (ship_to ''a3'')
             (fst (checkout ''o2'' ''VT-2'' ''u2'' (ship_to ''a2'') store)))
       = Inl (InsufficientStockException 0)"
proof -
  have 1: "map_option stockQuantity (variants store ''vC'') = Some 1"
    by (simp add: store_variants variantC_def)
  have 2: "map_sum id order_id
        (fst (snd (checkout_overlapped (''o2'', ''VT-2'', ''u2'', ship_to ''a2'')
                     (''o3'', ''VT-3'', ''u3'', ship_to ''a3'') store))) = Inr ''o2''"
    by (simp add: checkout_overlapped_def store_eval variantC_def)
  have 3: "map_sum id order_id
        (snd (snd (checkout_overlapped (''o2'', ''VT-2'', ''u2'', ship_to ''a2'')
                     (''o3'', ''VT-3'', ''u3'', ship_to ''a3'') store))) = Inr ''o3''"
    by (simp add: checkout_overlapped_def store_eval variantC_def)
  have 4: "map_option stockQuantity
        (variants (fst (checkout_overlapped (''o2'', ''VT-2'', ''u2'', ship_to ''a2'')
                          (''o3'', ''VT-3'', ''u3'', ship_to ''a3'') store)) ''vC'')
       = Some (- 1)"
    by (simp add: checkout_overlapped_def store_eval variantC_def)
  have 5: "snd (checkout ''o3'' ''VT-3'' ''u3'' (ship_to ''a3'')
             (fst (checkout ''o2'' ''VT-2'' ''u2'' (ship_to ''a2'') store)))
       = Inl (InsufficientStockException 0)"
    by (simp add: store_eval variantC_def)
  from 1 2 3 4 5 show ?thesis by simp
qed

section \<open>Properties of cancellation\<close>

lemma restore_stock_effect:
  "\<forall>i\<in>set ois. variants d (variantId i) \<noteq> None \<Longrightarrow>
   restore_stock ois d =
     Inr (d\<lparr>variants := \<lambda>vid. map_option
            (\<lambda>v. v\<lparr>stockQuantity := stockQuantity v + units ois vid\<rparr>) (variants d vid)\<rparr>)"
proof (induction ois arbitrary: d)
  case Nil
  have "(\<lambda>vid. map_option (\<lambda>v. v\<lparr>stockQuantity := stockQuantity v + units [] vid\<rparr>)
           (variants d vid)) = variants d"
    by (rule ext) (simp add: units_def option.map_ident)
  then show ?case by simp
next
  case (Cons i ois)
  from Cons.prems obtain v where v: "variants d (variantId i) = Some v" by auto
  let ?d1 = "d\<lparr>variants := (variants d)(variantId i \<mapsto>
               v\<lparr>stockQuantity := stockQuantity v + quantity i\<rparr>)\<rparr>"
  have "\<forall>j\<in>set ois. variants ?d1 (variantId j) \<noteq> None"
    using Cons.prems by simp
  from Cons.IH[OF this]
  have "restore_stock (i # ois) d =
     Inr (?d1\<lparr>variants := \<lambda>vid. map_option
            (\<lambda>v. v\<lparr>stockQuantity := stockQuantity v + units ois vid\<rparr>) (variants ?d1 vid)\<rparr>)"
    using v by (simp add: variant_update_def)
  moreover have "(\<lambda>vid. map_option
            (\<lambda>v. v\<lparr>stockQuantity := stockQuantity v + units ois vid\<rparr>) (variants ?d1 vid))
     = (\<lambda>vid. map_option
            (\<lambda>v. v\<lparr>stockQuantity := stockQuantity v + units (i # ois) vid\<rparr>) (variants d vid))"
    using v by (auto simp: units_def fun_eq_iff)
  ultimately show ?case by simp
qed

lemma restore_stock_missing:
  "\<exists>i\<in>set ois. variants d (variantId i) = None \<Longrightarrow> restore_stock ois d = Inl RecordNotFound"
proof (induction ois arbitrary: d)
  case Nil
  then show ?case by simp
next
  case (Cons i ois)
  show ?case
  proof (cases "variants d (variantId i)")
    case None
    then show ?thesis by (simp add: variant_update_def)
  next
    case (Some v)
    with Cons.prems obtain j where j: "j \<in> set ois" "variants d (variantId j) = None"
      by auto
    then have "variantId j \<noteq> variantId i" using Some by auto
    with j have "\<exists>j\<in>set ois. variants (d\<lparr>variants := (variants d)(variantId i \<mapsto>
               v\<lparr>stockQuantity := stockQuantity v + quantity i\<rparr>)\<rparr>) (variantId j) = None"
      by (intro bexI[of _ j]) simp_all
    from Cons.IH[OF this] Some show ?thesis by (simp add: variant_update_def)
  qed
qed

lemma cancelOrder_not_found:
  "orders d orderId = None \<or> (\<exists>ord. orders d orderId = Some ord \<and> order_userId ord \<noteq> userId)
   \<Longrightarrow> cancelOrder userId orderId d = (d, Inl OrderNotFoundException)"
  by (auto simp: cancelOrder_def order_findFirst_def)

lemma cancelOrder_not_allowed:
  "orders d orderId = Some ord \<Longrightarrow> order_userId ord = userId \<Longrightarrow>
   order_status ord \<noteq> PENDING \<Longrightarrow> order_status ord \<noteq> CONFIRMED \<Longrightarrow>
   cancelOrder userId orderId d = (d, Inl OrderCancelNotAllowedException)"
  by (simp add: cancelOrder_def order_findFirst_def)

lemma cancelOrder_ok:
  assumes "orders d orderId = Some ord" "order_userId ord = userId"
    "order_status ord = PENDING \<or> order_status ord = CONFIRMED"
    "\<forall>i\<in>set (order_items ord). variants d (variantId i) \<noteq> None"
  shows "cancelOrder userId orderId d =
     (d\<lparr> variants := \<lambda>vid. map_option
            (\<lambda>v. v\<lparr>stockQuantity := stockQuantity v + units (order_items ord) vid\<rparr>)
            (variants d vid),
         orders := (orders d)(orderId \<mapsto> ord\<lparr>order_status := CANCELLED\<rparr>) \<rparr>,
      Inr (ord\<lparr>order_status := CANCELLED\<rparr>))"
  using assms restore_stock_effect[OF assms(4)]
  by (auto simp: cancelOrder_def order_findFirst_def transaction_def
      cancelOrder_tx_def order_update_def)

lemma cancelOrder_broken_reference:
  assumes "orders d orderId = Some ord" "order_userId ord = userId"
    "order_status ord = PENDING \<or> order_status ord = CONFIRMED"
    "\<exists>i\<in>set (order_items ord). variants d (variantId i) = None"
  shows "cancelOrder userId orderId d = (d, Inl RecordNotFound)"
  using assms restore_stock_missing[OF assms(4)]
  by (auto simp: cancelOrder_def order_findFirst_def transaction_def
      cancelOrder_tx_def order_update_def)

text \<open>
  Claim C5. Provided the variants of the order's items exist, cancellation by a user
  succeeds exactly when the order exists, belongs to that user and is \<open>PENDING\<close> or
  \<open>CONFIRMED\<close>. It then adds to the stock of every variant the quantities of the
  order's items for that variant, each item counted once, and sets the status to
  \<open>CANCELLED\<close>; a second cancellation fails with the cancel-not-allowed error and
  changes nothing. For an order of the user in any other status the call fails with the
  cancel-not-allowed error and the store is unchanged; for a missing order or an order
  of another user it fails with the order-not-found error.
\<close>

theorem cancelOrder_spec:
  assumes fk: "\<forall>ord. orders d orderId = Some ord \<longrightarrow>
                 (\<forall>i\<in>set (order_items ord). variants d (variantId i) \<noteq> None)"
  shows "((\<exists>r. snd (cancelOrder userId orderId d) = Inr r) \<longleftrightarrow>
            (\<exists>ord. orders d orderId = Some ord \<and> order_userId ord = userId
                \<and> (order_status ord = PENDING \<or> order_status ord = CONFIRMED)))
    \<and> (\<forall>ord. orders d orderId = Some ord \<and> order_userId ord = userId
            \<and> (order_status ord = PENDING \<or> order_status ord = CONFIRMED) \<longrightarrow>
          cancelOrder userId orderId d =
            (d\<lparr> variants := \<lambda>vid. map_option
                   (\<lambda>v. v\<lparr>stockQuantity := stockQuantity v + units (order_items ord) vid\<rparr>)
                   (variants d vid),
                orders := (orders d)(orderId \<mapsto> ord\<lparr>order_status := CANCELLED\<rparr>) \<rparr>,
             Inr (ord\<lparr>order_status := CANCELLED\<rparr>))
          \<and> cancelOrder userId orderId (fst (cancelOrder userId orderId d)) =
              (fst (cancelOrder userId orderId d), Inl OrderCancelNotAllowedException))
    \<and> (\<forall>ord. orders d orderId = Some ord \<and> order_userId ord = userId
            \<and> order_status ord \<noteq> PENDING \<and> order_status ord \<noteq> CONFIRMED \<longrightarrow>
          cancelOrder userId orderId d = (d, Inl OrderCancelNotAllowedException))
    \<and> (orders d orderId = None
          \<or> (\<exists>ord. orders d orderId = Some ord \<and> order_userId ord \<noteq> userId) \<longrightarrow>
          cancelOrder userId orderId d = (d, Inl OrderNotFoundException))"
proof -
  have ok: "cancelOrder userId orderId d =
            (d\<lparr> variants := \<lambda>vid. map_option
                   (\<lambda>v. v\<lparr>stockQuantity := stockQuantity v + units (order_items ord) vid\<rparr>)
                   (variants d vid),
                orders := (orders d)(orderId \<mapsto> ord\<lparr>order_status := CANCELLED\<rparr>) \<rparr>,
             Inr (ord\<lparr>order_status := CANCELLED\<rparr>))"
    if "orders d orderId = Some ord" "order_userId ord = userId"
       "order_status ord = PENDING \<or> order_status ord = CONFIRMED" for ord
    using that fk by (intro cancelOrder_ok) auto
  have again: "cancelOrder userId orderId (fst (cancelOrder userId orderId d)) =
              (fst (cancelOrder userId orderId d), Inl OrderCancelNotAllowedException)"
    if "orders d orderId = Some ord" "order_userId ord = userId"
       "order_status ord = PENDING \<or> order_status ord = CONFIRMED" for ord
    unfolding ok[OF that] by (rule cancelOrder_not_allowed[of _ _ "ord\<lparr>order_status := CANCELLED\<rparr>"])
      (use that in simp_all)
  have no: "cancelOrder userId orderId d = (d, Inl OrderCancelNotAllowedException)"
    if "orders d orderId = Some ord" "order_userId ord = userId"
       "order_status ord \<noteq> PENDING" "order_status ord \<noteq> CONFIRMED" for ord
    using that by (rule cancelOrder_not_allowed)
  have nf: "cancelOrder userId orderId d = (d, Inl OrderNotFoundException)"
    if "orders d orderId = None
          \<or> (\<exists>ord. orders d orderId = Some ord \<and> order_userId ord \<noteq> userId)"
    using that by (rule cancelOrder_not_found)
  have iff: "(\<exists>r. snd (cancelOrder userId orderId d) = Inr r) \<longleftrightarrow>
            (\<exists>ord. orders d orderId = Some ord \<and> order_userId ord = userId
                \<and> (order_status ord = PENDING \<or> order_status ord = CONFIRMED))"
  proof
    assume "\<exists>r. snd (cancelOrder userId orderId d) = Inr r"
    then show "\<exists>ord. orders d orderId = Some ord \<and> order_userId ord = userId
                \<and> (order_status ord = PENDING \<or> order_status ord = CONFIRMED)"
      using no nf by (cases "orders d orderId") fastforce+
  next
    assume "\<exists>ord. orders d orderId = Some ord \<and> order_userId ord = userId
                \<and> (order_status ord = PENDING \<or> order_status ord = CONFIRMED)"
    then show "\<exists>r. snd (cancelOrder userId orderId d) = Inr r"
      using ok by fastforce
  qed
  from iff ok again no nf show ?thesis by blast
qed

text \<open>
  The sample order holds two units of variant A and one of variant B: cancelling it
  raises the stocks from 5 and 3 to 7 and 4, and cancelling it again is refused.
\<close>

theorem cancelOrder_spec_witness:
  "map_option stockQuantity (variants store ''vA'') = Some 5
   \<and> map_option stockQuantity (variants store ''vB'') = Some 3
   \<and> map_option stockQuantity (variants (fst (cancelOrder ''u1'' ''o1'' store)) ''vA'') = Some 7
   \<and> map_option stockQuantity (variants (fst (cancelOrder ''u1'' ''o1'' store)) ''vB'') = Some 4
   \<and> map_option order_status (orders (fst (cancelOrder ''u1'' ''o1'' store)) ''o1'')
       = Some CANCELLED
   \<and> cancelOrder ''u1'' ''o1'' (fst (cancelOrder ''u1'' ''o1'' store))
       = (fst (cancelOrder ''u1'' ''o1'' store), Inl OrderCancelNotAllowedException)"
proof -
  have fk: "\<forall>ord. orders store ''o1'' = Some ord \<longrightarrow>
                 (\<forall>i\<in>set (order_items ord). variants store (variantId i) \<noteq> None)"
    by (simp add: store_tables order1_def store_variants)
  have o: "orders store ''o1'' = Some order1 \<and> order_userId order1 = ''u1''
            \<and> (order_status order1 = PENDING \<or> order_status order1 = CONFIRMED)"
    by (simp add: store_tables order1_def)
  have u: "units (order_items order1) ''vA'' = 2" "units (order_items order1) ''vB'' = 1"
    by (simp_all add: order1_def units_def)
  have s: "stockQuantity variantA = 5" "stockQuantity variantB = 3"
    by (simp_all add: variantA_def variantB_def)
  from cancelOrder_spec[OF fk, of "''u1''"] o
  have r: "cancelOrder ''u1'' ''o1'' store =
            (store\<lparr> variants := \<lambda>vid. map_option
                   (\<lambda>v. v\<lparr>stockQuantity := stockQuantity v + units (order_items order1) vid\<rparr>)
                   (variants store vid),
                orders := (orders store)(''o1'' \<mapsto> order1\<lparr>order_status := CANCELLED\<rparr>) \<rparr>,
             Inr (order1\<lparr>order_status := CANCELLED\<rparr>))"
    and a: "cancelOrder ''u1'' ''o1'' (fst (cancelOrder ''u1'' ''o1'' store)) =
              (fst (cancelOrder ''u1'' ''o1'' store), Inl OrderCancelNotAllowedException)"
    by blast+
  have "map_option stockQuantity (variants (fst (cancelOrder ''u1'' ''o1'' store)) ''vA'') = Some 7"
       "map_option stockQuantity (variants (fst (cancelOrder ''u1'' ''o1'' store)) ''vB'') = Some 4"
       "map_option order_status (orders (fst (cancelOrder ''u1'' ''o1'' store)) ''o1'')
          = Some CANCELLED"
    by (simp_all add: r store_variants u s)
  with a show ?thesis by (simp add: store_variants s)
qed

section \<open>Properties of applying a coupon\<close>

lemma include_variant_carts [simp]:
  "include_variant (d\<lparr>carts := x\<rparr>) items = include_variant d items"
  by (induction items) (auto split: option.splits)










end
